theory Spec2Isabelle
  imports Main "HOL-Library.Multiset"
begin

section \<open>The persistent store\<close>

text \<open>
  The tables of \<^verbatim>\<open>createTables\<close> that the registration, listing, contact and seeding
  code reads and writes. A row is a record with one field per column; the fields carry
  the table's initial as a prefix (\<open>s_\<close> students, \<open>sec_\<close> sections, \<open>m_\<close>
  contact\_messages) because several tables share column names. A \<^verbatim>\<open>DATETIME\<close> is the
  number of seconds on the store's clock, a nullable \<^verbatim>\<open>TEXT\<close> column is a
  \<open>string option\<close>. A table is the list of its rows in rowid order together with the
  largest rowid the table ever handed out (the \<^verbatim>\<open>AUTOINCREMENT\<close> sequence).
\<close>

type_synonym datetime = nat

record students_row =
  s_id :: nat
  s_student_name :: string
  s_student_age :: int
  s_parent_name :: string
  s_phone :: string
  s_email :: "string option"
  s_section :: string
  s_payment_plan :: string
  s_comments :: "string option"
  s_registration_date :: datetime
  s_status :: string
  s_payment_status :: string
  s_created_at :: datetime
  s_updated_at :: datetime

record sections_row =
  sec_id :: nat
  sec_name :: string
  sec_description :: string
  sec_capacity :: int
  sec_current_enrollment :: int
  sec_fee_termly :: int
  sec_fee_annual :: int
  sec_age_min :: int
  sec_age_max :: int
  sec_is_active :: bool
  sec_created_at :: datetime
  sec_updated_at :: datetime

record contact_messages_row =
  m_id :: nat
  m_name :: string
  m_email :: string
  m_phone :: "string option"
  m_subject :: string
  m_message :: string
  m_status :: string
  m_created_at :: datetime
  m_updated_at :: datetime

record database =
  students :: "students_row list"
  students_seq :: nat
  sections :: "sections_row list"
  sections_seq :: nat
  contact_messages :: "contact_messages_row list"

text \<open>
  The rowid an \<^verbatim>\<open>INTEGER PRIMARY KEY AUTOINCREMENT\<close> column gives the next row: one more
  than the largest rowid in the table or ever recorded in the sequence.
\<close>

definition next_rowid :: "nat \<Rightarrow> nat list \<Rightarrow> nat" where
  "next_rowid seq ids = Suc (fold max ids seq)"

text \<open>
  Every \<^verbatim>\<open>db.run\<close>, \<^verbatim>\<open>db.get\<close> and \<^verbatim>\<open>db.all\<close> returns a promise that rejects when
  the store reports an error. Each call site below has a label, and the environment says
  which calls reject.
\<close>

datatype db_call =
    RegGetExisting
  | RegGetSection
  | RegInsertStudent
  | RegUpdateEnrollment
  | ListAll
  | ListCount
  | MsgGet
  | MsgMarkRead
  | SeedInsert string

section \<open>The environment of a request\<close>

text \<open>
  What a handler uses and the repository does not define: the string validators and the
  sanitizer of the validation library, the store's clock, the store's faults and the
  mail transport (\<open>True\<close> when the transport accepted the message, \<open>False\<close> when
  creating the transporter or sending raised). Of a confirmation mail the model keeps
  the recipient, the subject and the registration identifier that its HTML body quotes.
\<close>

record mail =
  mail_to :: string
  mail_subject :: string
  mail_registrationId :: string

record env =
  isMobilePhone :: "string \<Rightarrow> bool"
  isEmail :: "string \<Rightarrow> bool"
  trim :: "string \<Rightarrow> string"
  now :: datetime
  db_fails :: "db_call \<Rightarrow> bool"
  sendMail :: "mail \<Rightarrow> bool"

section \<open>Registration\<close>

subsection \<open>The request body and its validation\<close>

record body =
  parentName :: string
  phone :: string
  email :: "string option"
  studentName :: string
  studentAge :: int
  section_name :: string
  paymentPlan :: string
  comments :: "string option"

text \<open>
  \<^verbatim>\<open>registrationValidation\<close>: eight chains, each with one validator, all run; a failing
  chain adds its field and message to the errors. \<^verbatim>\<open>trim()\<close> is a sanitizer: it
  replaces the field in the request body before \<^verbatim>\<open>isLength\<close> looks at it, and the
  handler reads the replaced value. \<^verbatim>\<open>optional()\<close> skips a chain whose field is absent.
  The field \<^verbatim>\<open>section\<close> of the body is \<open>section_name\<close> here. The body is
  typed: the four required texts are strings (the validators see an absent one as the
  empty string), the age is an integer, and the two optional fields may be absent.
  \<^verbatim>\<open>isLength\<close> counts characters, \<^verbatim>\<open>isIn\<close> compares strings exactly.
\<close>

definition valid_sections :: "string list" where
  "valid_sections =
     [''Nursery'', ''Primary'', ''Islamiyya'', ''Tahfiz'', ''Higher Islamic'', ''Mosque/Majlis'']"

definition valid_payment_plans :: "string list" where
  "valid_payment_plans = [''Termly Plan'', ''Annual Plan'']"

definition isLength :: "nat \<Rightarrow> nat \<Rightarrow> string \<Rightarrow> bool" where
  "isLength lo hi s = (lo \<le> length s \<and> length s \<le> hi)"

definition isInt :: "int \<Rightarrow> int \<Rightarrow> int \<Rightarrow> bool" where
  "isInt lo hi n = (lo \<le> n \<and> n \<le> hi)"

definition isIn :: "string list \<Rightarrow> string \<Rightarrow> bool" where
  "isIn vs s = (s \<in> set vs)"

definition sanitize :: "env \<Rightarrow> body \<Rightarrow> body" where
  "sanitize e b = b\<lparr>parentName := trim e (parentName b), studentName := trim e (studentName b)\<rparr>"

definition check :: "bool \<Rightarrow> string \<Rightarrow> string \<Rightarrow> (string \<times> string) list" where
  "check ok field msg = (if ok then [] else [(field, msg)])"

definition registrationValidation :: "env \<Rightarrow> body \<Rightarrow> (string \<times> string) list" where
  "registrationValidation e b =
     check (isLength 2 100 (trim e (parentName b)))
       ''parentName'' ''Parent name must be between 2-100 characters''
   @ check (isMobilePhone e (phone b))
       ''phone'' ''Please provide a valid phone number''
   @ check (case email b of None \<Rightarrow> True | Some a \<Rightarrow> isEmail e a)
       ''email'' ''Please provide a valid email address''
   @ check (isLength 2 100 (trim e (studentName b)))
       ''studentName'' ''Student name must be between 2-100 characters''
   @ check (isInt 3 30 (studentAge b))
       ''studentAge'' ''Student age must be between 3-30 years''
   @ check (isIn valid_sections (section_name b))
       ''section'' ''Please select a valid section''
   @ check (isIn valid_payment_plans (paymentPlan b))
       ''paymentPlan'' ''Please select a valid payment plan''
   @ check (case comments b of None \<Rightarrow> True | Some c \<Rightarrow> isLength 0 500 c)
       ''comments'' ''Comments must not exceed 500 characters''"

subsection \<open>The registration identifier\<close>

text \<open>\<^verbatim>\<open>result.id.toString().padStart(6, '0')\<close> behind the school code.\<close>

definition digit :: "nat \<Rightarrow> char" where
  "digit d = char_of (48 + d)"

fun toString :: "nat \<Rightarrow> string" where
  "toString n = (if n < 10 then [digit n] else toString (n div 10) @ [digit (n mod 10)])"

declare toString.simps [simp del]

definition padStart :: "nat \<Rightarrow> char \<Rightarrow> string \<Rightarrow> string" where
  "padStart n c s = replicate (n - length s) c @ s"

definition registrationId_of :: "nat \<Rightarrow> string" where
  "registrationId_of rid = ''MBU'' @ padStart 6 (CHR ''0'') (toString rid)"

subsection \<open>The four store calls of the handler\<close>

definition get_existing_student :: "database \<Rightarrow> body \<Rightarrow> students_row option" where
  "get_existing_student db b =
     find (\<lambda>r. s_student_name r = studentName b \<and> s_parent_name r = parentName b
                \<and> s_phone r = phone b) (students db)"

definition get_active_section :: "database \<Rightarrow> string \<Rightarrow> sections_row option" where
  "get_active_section db n = find (\<lambda>s. sec_name s = n \<and> sec_is_active s) (sections db)"

definition new_student :: "datetime \<Rightarrow> nat \<Rightarrow> body \<Rightarrow> students_row" where
  "new_student t rid b =
     \<lparr>s_id = rid, s_student_name = studentName b, s_student_age = studentAge b,
      s_parent_name = parentName b, s_phone = phone b, s_email = email b,
      s_section = section_name b, s_payment_plan = paymentPlan b, s_comments = comments b,
      s_registration_date = t, s_status = ''pending'', s_payment_status = ''unpaid'',
      s_created_at = t, s_updated_at = t\<rparr>"

definition insert_student :: "datetime \<Rightarrow> body \<Rightarrow> database \<Rightarrow> nat \<times> database" where
  "insert_student t b db =
     (let rid = next_rowid (students_seq db) (map s_id (students db))
      in (rid, db\<lparr>students := students db @ [new_student t rid b], students_seq := rid\<rparr>))"

definition increment_enrollment :: "string \<Rightarrow> database \<Rightarrow> database" where
  "increment_enrollment n db =
     db\<lparr>sections := map (\<lambda>s. if sec_name s = n
                                then s\<lparr>sec_current_enrollment := sec_current_enrollment s + 1\<rparr>
                                else s) (sections db)\<rparr>"

subsection \<open>The handler\<close>

record registration_data =
  registrationId :: string
  studentId :: nat
  data_section :: string
  data_paymentPlan :: string

record response =
  status_code :: nat
  success :: bool
  message :: string
  data :: "registration_data option"
  errors :: "(string \<times> string) list option"

record outcome =
  reply :: response
  store :: database
  sent :: "mail list"

definition failure :: "nat \<Rightarrow> string \<Rightarrow> database \<Rightarrow> outcome" where
  "failure c msg db =
     \<lparr>reply = \<lparr>status_code = c, success = False, message = msg, data = None, errors = None\<rparr>,
      store = db, sent = []\<rparr>"

definition confirmation :: "body \<Rightarrow> nat \<Rightarrow> string \<Rightarrow> mail" where
  "confirmation b rid a =
     \<lparr>mail_to = a,
      mail_subject = ''Registration Confirmation - Musab Bin Umair Memorial School'',
      mail_registrationId = registrationId_of rid\<rparr>"

text \<open>
  \<^verbatim>\<open>sendEmail\<close> creates the transporter and sends; whatever either raises is logged
  and thrown again to the caller.
\<close>

datatype js_error = Error

definition sendEmail :: "env \<Rightarrow> mail \<Rightarrow> js_error + mail" where
  "sendEmail e m = (if sendMail e m then Inr m else Inl Error)"

text \<open>
  \<^verbatim>\<open>if (email) { try { await sendEmail(...) } catch (emailError) { console.error(...) } }\<close>:
  an absent or empty address sends nothing; a send that raises is caught, and nothing
  reaches the outbox.
\<close>

definition send_confirmation :: "env \<Rightarrow> body \<Rightarrow> nat \<Rightarrow> mail list" where
  "send_confirmation e b rid =
     (case email b of
        None \<Rightarrow> []
      | Some a \<Rightarrow>
          if a = [] then []
          else (case sendEmail e (confirmation b rid a) of
                  Inl emailError \<Rightarrow> []
                | Inr info \<Rightarrow> [info]))"

definition created :: "body \<Rightarrow> nat \<Rightarrow> response" where
  "created b rid =
     \<lparr>status_code = 201, success = True, message = ''Registration successful'',
      data = Some \<lparr>registrationId = registrationId_of rid, studentId = rid,
                   data_section = section_name b, data_paymentPlan = paymentPlan b\<rparr>,
      errors = None\<rparr>"

definition internal_error :: "database \<Rightarrow> outcome" where
  "internal_error db = failure 500 ''Registration failed. Please try again.'' db"

definition register :: "env \<Rightarrow> database \<Rightarrow> body \<Rightarrow> outcome" where
  "register e db raw =
     (let errs = registrationValidation e raw; b = sanitize e raw in
      if errs \<noteq> [] then
        \<lparr>reply = \<lparr>status_code = 400, success = False, message = ''Validation failed'',
                  data = None, errors = Some errs\<rparr>,
         store = db, sent = []\<rparr>
      else if db_fails e RegGetExisting then internal_error db
      else
        (case get_existing_student db b of
           Some existingStudent \<Rightarrow>
             failure 409 ''A student with this information is already registered'' db
         | None \<Rightarrow>
             if db_fails e RegGetSection then internal_error db
             else
               (case get_active_section db (section_name b) of
                  None \<Rightarrow> failure 400 ''Selected section is not available'' db
                | Some sectionInfo \<Rightarrow>
                    if sec_current_enrollment sectionInfo \<ge> sec_capacity sectionInfo then
                      failure 400 ''Selected section is at full capacity'' db
                    else if db_fails e RegInsertStudent then internal_error db
                    else
                      (let (rid, db1) = insert_student (now e) b db in
                       if db_fails e RegUpdateEnrollment then internal_error db1
                       else
                         \<lparr>reply = created b rid,
                          store = increment_enrollment (section_name b) db1,
                          sent = send_confirmation e b rid\<rparr>))))"

subsection \<open>Requests in flight\<close>

text \<open>
  The handler is an \<^verbatim>\<open>async\<close> function: it runs until an \<^verbatim>\<open>await\<close>, and while its
  store call is pending the event loop runs other handlers. A task is a handler
  suspended at one of its awaits; a step performs the store call it waits for and runs
  the handler to its next await (or to its response). A schedule names the task that
  steps next. Sending the confirmation is the handler's last await; it does not touch
  the store, and the step that performs the update runs on through it to the response.
\<close>

datatype task =
    Fresh body
  | AwaitExisting body
  | AwaitSection body
  | AwaitInsert body
  | AwaitUpdate body nat
  | Finished response

fun step :: "env \<Rightarrow> task \<Rightarrow> database \<Rightarrow> task \<times> database \<times> mail list" where
  "step e (Fresh raw) db =
     (let errs = registrationValidation e raw in
      if errs \<noteq> [] then
        (Finished \<lparr>status_code = 400, success = False, message = ''Validation failed'',
                   data = None, errors = Some errs\<rparr>, db, [])
      else (AwaitExisting (sanitize e raw), db, []))"
| "step e (AwaitExisting b) db =
     (if db_fails e RegGetExisting then (Finished (reply (internal_error db)), db, [])
      else
        (case get_existing_student db b of
           Some existingStudent \<Rightarrow>
             (Finished (reply (failure 409
                ''A student with this information is already registered'' db)), db, [])
         | None \<Rightarrow> (AwaitSection b, db, [])))"
| "step e (AwaitSection b) db =
     (if db_fails e RegGetSection then (Finished (reply (internal_error db)), db, [])
      else
        (case get_active_section db (section_name b) of
           None \<Rightarrow>
             (Finished (reply (failure 400 ''Selected section is not available'' db)), db, [])
         | Some sectionInfo \<Rightarrow>
             if sec_current_enrollment sectionInfo \<ge> sec_capacity sectionInfo then
               (Finished (reply (failure 400 ''Selected section is at full capacity'' db)),
                db, [])
             else (AwaitInsert b, db, [])))"
| "step e (AwaitInsert b) db =
     (if db_fails e RegInsertStudent then (Finished (reply (internal_error db)), db, [])
      else (let (rid, db1) = insert_student (now e) b db in (AwaitUpdate b rid, db1, [])))"
| "step e (AwaitUpdate b rid) db =
     (if db_fails e RegUpdateEnrollment then (Finished (reply (internal_error db)), db, [])
      else (Finished (created b rid), increment_enrollment (section_name b) db,
            send_confirmation e b rid))"
| "step e (Finished r) db = (Finished r, db, [])"

record server =
  tasks :: "task list"
  disk :: database
  outbox :: "mail list"

definition step_task :: "env \<Rightarrow> nat \<Rightarrow> server \<Rightarrow> server" where
  "step_task e i sv =
     (if i < length (tasks sv) then
        (let (t, db, ms) = step e (tasks sv ! i) (disk sv)
         in \<lparr>tasks = (tasks sv)[i := t], disk = db, outbox = outbox sv @ ms\<rparr>)
      else sv)"

definition run_schedule :: "env \<Rightarrow> nat list \<Rightarrow> server \<Rightarrow> server" where
  "run_schedule e sched sv = fold (step_task e) sched sv"

text \<open>Handling the requests one after another: each handler responds before the next starts.\<close>

fun register_all :: "env \<Rightarrow> database \<Rightarrow> body list \<Rightarrow> response list \<times> database" where
  "register_all e db [] = ([], db)"
| "register_all e db (raw # rest) =
     (let out = register e db raw; (rs, db') = register_all e (store out) rest
      in (reply out # rs, db'))"

text \<open>A task stepped on its own, with the mail of every step collected.\<close>

fun steps :: "env \<Rightarrow> nat \<Rightarrow> task \<Rightarrow> database \<Rightarrow> task \<times> database \<times> mail list" where
  "steps e 0 t db = (t, db, [])"
| "steps e (Suc k) t db =
     (let (t1, db1, ms1) = step e t db; (t2, db2, ms2) = steps e k t1 db1
      in (t2, db2, ms1 @ ms2))"

text \<open>The key of the duplicate check.\<close>

definition triple :: "body \<Rightarrow> string \<times> string \<times> string" where
  "triple b = (studentName b, parentName b, phone b)"

section \<open>Listing registrations\<close>

text \<open>
  \<^verbatim>\<open>router.get('/')\<close> builds two statements, the page and the count, each by appending
  a condition for every filter that is present and not empty. \<^verbatim>\<open>page\<close> and
  \<^verbatim>\<open>limit\<close> are the integers the query strings denote; absent, they are 1 and 20.
\<close>

record list_query =
  q_status :: "string option"
  q_section :: "string option"
  q_page :: "int option"
  q_limit :: "int option"

datatype condition = StatusEq string | SectionEq string

fun holds :: "students_row \<Rightarrow> condition \<Rightarrow> bool" where
  "holds r (StatusEq v) = (s_status r = v)"
| "holds r (SectionEq v) = (s_section r = v)"

definition truthy :: "string \<Rightarrow> bool" where
  "truthy v = (v \<noteq> [])"

definition query_params :: "list_query \<Rightarrow> condition list" where
  "query_params q =
     (case q_status q of None \<Rightarrow> [] | Some v \<Rightarrow> if truthy v then [StatusEq v] else [])
   @ (case q_section q of None \<Rightarrow> [] | Some v \<Rightarrow> if truthy v then [SectionEq v] else [])"

definition countQuery_params :: "list_query \<Rightarrow> condition list" where
  "countQuery_params q =
     (case q_status q of None \<Rightarrow> [] | Some v \<Rightarrow> if truthy v then [StatusEq v] else [])
   @ (case q_section q of None \<Rightarrow> [] | Some v \<Rightarrow> if truthy v then [SectionEq v] else [])"

text \<open>
  The store's side: \<^verbatim>\<open>WHERE 1=1 AND ...\<close>, \<^verbatim>\<open>ORDER BY created_at DESC\<close> (rows of
  one second stay in rowid order), \<^verbatim>\<open>LIMIT\<close> (a negative limit is no limit) and
  \<^verbatim>\<open>OFFSET\<close> (a negative offset is none).
\<close>

definition sql_where :: "condition list \<Rightarrow> students_row list \<Rightarrow> students_row list" where
  "sql_where cs rows = filter (\<lambda>r. list_all (holds r) cs) rows"

definition order_by_created_at_desc :: "students_row list \<Rightarrow> students_row list" where
  "order_by_created_at_desc rows = sort_key (\<lambda>r. - int (s_created_at r)) rows"

definition sql_limit_offset :: "int \<Rightarrow> int \<Rightarrow> 'a list \<Rightarrow> 'a list" where
  "sql_limit_offset lim off rows =
     (let rest = drop (nat off) rows in if lim < 0 then rest else take (nat lim) rest)"

record pagination =
  page :: int
  limit :: int
  total :: int
  pages :: "int option"

record list_response =
  l_status_code :: nat
  l_success :: bool
  l_message :: "string option"
  l_data :: "students_row list option"
  l_pagination :: "pagination option"

text \<open>
  \<^verbatim>\<open>Math.ceil(total / limit)\<close>: the quotient of a division by zero is not a number
  that JSON can carry, and the response holds \<^verbatim>\<open>null\<close>.
\<close>

definition ceil_div :: "int \<Rightarrow> int \<Rightarrow> int option" where
  "ceil_div a b = (if b = 0 then None else Some (- ((- a) div b)))"

definition list_failed :: list_response where
  "list_failed =
     \<lparr>l_status_code = 500, l_success = False,
      l_message = Some ''Failed to fetch registrations'', l_data = None, l_pagination = None\<rparr>"

definition list_registrations :: "env \<Rightarrow> database \<Rightarrow> list_query \<Rightarrow> list_response" where
  "list_registrations e db q =
     (let pg = (case q_page q of None \<Rightarrow> 1 | Some n \<Rightarrow> n);
          lim = (case q_limit q of None \<Rightarrow> 20 | Some n \<Rightarrow> n);
          offset = (pg - 1) * lim
      in
      if db_fails e ListAll then list_failed
      else
        (let rows = sql_limit_offset lim offset
                      (order_by_created_at_desc (sql_where (query_params q) (students db)))
         in
         if db_fails e ListCount then list_failed
         else
           (let tot = int (length (sql_where (countQuery_params q) (students db)))
            in \<lparr>l_status_code = 200, l_success = True, l_message = None, l_data = Some rows,
                l_pagination =
                  Some \<lparr>page = pg, limit = lim, total = tot, pages = ceil_div tot lim\<rparr>\<rparr>)))"

text \<open>
  The filter as the specification words it: zero or more equality filters on status and
  section. An empty string is an absent filter (\<^verbatim>\<open>if (status)\<close>).
\<close>

definition selected :: "list_query \<Rightarrow> students_row \<Rightarrow> bool" where
  "selected q r =
     ((case q_status q of None \<Rightarrow> True | Some v \<Rightarrow> v = [] \<or> s_status r = v)
    \<and> (case q_section q of None \<Rightarrow> True | Some v \<Rightarrow> v = [] \<or> s_section r = v))"

section \<open>Reading a contact message\<close>

record message_response =
  r_status_code :: nat
  r_success :: bool
  r_message :: "string option"
  r_data :: "contact_messages_row option"

definition message_failure :: "nat \<Rightarrow> string \<Rightarrow> message_response" where
  "message_failure c msg =
     \<lparr>r_status_code = c, r_success = False, r_message = Some msg, r_data = None\<rparr>"

definition mark_read :: "datetime \<Rightarrow> nat \<Rightarrow> database \<Rightarrow> database" where
  "mark_read t i db =
     db\<lparr>contact_messages :=
          map (\<lambda>m. if m_id m = i then m\<lparr>m_status := ''read'', m_updated_at := t\<rparr> else m)
            (contact_messages db)\<rparr>"

definition get_message :: "env \<Rightarrow> database \<Rightarrow> nat \<Rightarrow> message_response \<times> database" where
  "get_message e db i =
     (if db_fails e MsgGet then (message_failure 500 ''Failed to fetch contact message'', db)
      else
        (case find (\<lambda>m. m_id m = i) (contact_messages db) of
           None \<Rightarrow> (message_failure 404 ''Contact message not found'', db)
         | Some msg \<Rightarrow>
             if m_status msg = ''unread'' then
               (if db_fails e MsgMarkRead then
                  (message_failure 500 ''Failed to fetch contact message'', db)
                else
                  (\<lparr>r_status_code = 200, r_success = True, r_message = None,
                    r_data = Some (msg\<lparr>m_status := ''read''\<rparr>)\<rparr>,
                   mark_read (now e) i db))
             else
               (\<lparr>r_status_code = 200, r_success = True, r_message = None, r_data = Some msg\<rparr>,
                db)))"

section \<open>Seeding the sections\<close>

record default_section =
  name :: string
  description :: string
  capacity :: int
  fee_termly :: int
  fee_annual :: int
  age_min :: int
  age_max :: int

definition default_sections :: "default_section list" where
  "default_sections =
     [\<lparr>name = ''Nursery'',
       description = ''Early childhood Islamic education for ages 3-5'',
       capacity = 30, fee_termly = 12000, fee_annual = 32000, age_min = 3, age_max = 5\<rparr>,
      \<lparr>name = ''Primary School'',
       description = ''Primary education with Islamic values integration'',
       capacity = 40, fee_termly = 15000, fee_annual = 40000, age_min = 6, age_max = 12\<rparr>,
      \<lparr>name = ''Islamiyya'',
       description = ''Foundational Islamic studies program'',
       capacity = 50, fee_termly = 10000, fee_annual = 28000, age_min = 7, age_max = 16\<rparr>,
      \<lparr>name = ''Tahfiz'',
       description = ''Quran memorization program'',
       capacity = 25, fee_termly = 18000, fee_annual = 48000, age_min = 8, age_max = 18\<rparr>,
      \<lparr>name = ''Higher Islamic'',
       description = ''Advanced Islamic studies for older students'',
       capacity = 35, fee_termly = 20000, fee_annual = 55000, age_min = 16, age_max = 25\<rparr>,
      \<lparr>name = ''Mosque/Majlis'',
       description = ''Community programs and adult education'',
       capacity = 100, fee_termly = 5000, fee_annual = 15000, age_min = 18, age_max = 100\<rparr>]"

text \<open>
  \<^verbatim>\<open>INSERT OR IGNORE INTO sections (...)\<close>: the statement takes the next rowid and
  records it in the sequence before it meets the \<^verbatim>\<open>UNIQUE\<close> constraint on
  \<^verbatim>\<open>name\<close>. When a row of that name exists the statement writes no row, and the
  rowid it took stays used; otherwise the new row has that rowid and the column defaults
  (no enrollment, active, the current time).
\<close>

definition insert_or_ignore_section :: "datetime \<Rightarrow> default_section \<Rightarrow> database \<Rightarrow> database" where
  "insert_or_ignore_section t d db =
     (let rid = next_rowid (sections_seq db) (map sec_id (sections db))
      in if name d \<in> set (map sec_name (sections db)) then db\<lparr>sections_seq := rid\<rparr>
         else
           db\<lparr>sections := sections db @
                  [\<lparr>sec_id = rid, sec_name = name d, sec_description = description d,
                    sec_capacity = capacity d, sec_current_enrollment = 0,
                    sec_fee_termly = fee_termly d, sec_fee_annual = fee_annual d,
                    sec_age_min = age_min d, sec_age_max = age_max d, sec_is_active = True,
                    sec_created_at = t, sec_updated_at = t\<rparr>],
               sections_seq := rid\<rparr>)"

text \<open>
  The loop of \<^verbatim>\<open>insertDefaultSections\<close>: a statement that fails rejects the promise,
  the loop ends there and the rows inserted so far stay.
\<close>

fun seed_loop :: "env \<Rightarrow> default_section list \<Rightarrow> database \<Rightarrow> js_error option \<times> database" where
  "seed_loop e [] db = (None, db)"
| "seed_loop e (d # ds) db =
     (if db_fails e (SeedInsert (name d)) then (Some Error, db)
      else seed_loop e ds (insert_or_ignore_section (now e) d db))"

definition insertDefaultSections :: "env \<Rightarrow> database \<Rightarrow> js_error option \<times> database" where
  "insertDefaultSections e db = seed_loop e default_sections db"

section \<open>Reading identifiers back, and a worked example\<close>


text \<open>
  An environment for the examples: a phone number is a non-empty string of digits and
  \<open>+\<close>, an address contains \<open>@\<close>, trimming removes ASCII white space at both
  ends, the store works, the transport raises. The store is the one a first start
  leaves behind: no registrations and the six seeded sections.
\<close>

definition is_space :: "char \<Rightarrow> bool" where
  "is_space c = (c \<in> set [CHR '' '', CHR 0x09, CHR 0x0A, CHR 0x0B, CHR 0x0C, CHR 0x0D])"

definition example_env :: env where
  "example_env =
     \<lparr>isMobilePhone = (\<lambda>s. s \<noteq> [] \<and> list_all (\<lambda>c. c \<in> set ''+0123456789'') s),
      isEmail = (\<lambda>s. CHR ''@'' \<in> set s),
      trim = (\<lambda>s. rev (dropWhile is_space (rev (dropWhile is_space s)))),
      now = 1000,
      db_fails = (\<lambda>c. False),
      sendMail = (\<lambda>m. False)\<rparr>"

definition empty_database :: database where
  "empty_database =
     \<lparr>students = [], students_seq = 0, sections = [], sections_seq = 0, contact_messages = []\<rparr>"

definition seeded :: database where
  "seeded = snd (insertDefaultSections example_env empty_database)"

definition amina :: body where
  "amina =
     \<lparr>parentName = ''Amina Yusuf'', phone = ''+2348012345678'', email = None,
      studentName = ''Fatima Yusuf'', studentAge = 7, section_name = ''Tahfiz'',
      paymentPlan = ''Annual Plan'', comments = None\<rparr>"

definition tahfiz :: sections_row where
  "tahfiz =
     \<lparr>sec_id = 4, sec_name = ''Tahfiz'', sec_description = ''Quran memorization program'',
      sec_capacity = 25, sec_current_enrollment = 0, sec_fee_termly = 18000,
      sec_fee_annual = 48000, sec_age_min = 8, sec_age_max = 18, sec_is_active = True,
      sec_created_at = 1000, sec_updated_at = 1000\<rparr>"

text \<open>
  More of the example: the seeded store with Tahfiz full, the same submission with an
  address, and two environments whose store rejects the insert or the update.
\<close>

definition tahfiz_full :: database where
  "tahfiz_full =
     seeded\<lparr>sections :=
       map (\<lambda>s. if sec_name s = ''Tahfiz''
                 then s\<lparr>sec_current_enrollment := sec_capacity s\<rparr> else s) (sections seeded)\<rparr>"

definition amina_mail :: body where
  "amina_mail = amina\<lparr>email := Some ''amina@example.org''\<rparr>"

definition insert_fails :: env where
  "insert_fails = example_env\<lparr>db_fails := (\<lambda>c. c = RegInsertStudent)\<rparr>"

definition update_fails :: env where
  "update_fails = example_env\<lparr>db_fails := (\<lambda>c. c = RegUpdateEnrollment)\<rparr>"

text \<open>
  A submission for the section name \<^verbatim>\<open>Primary\<close>; a later clock; a store that holds
  one section whose capacity and enrollment differ from the seed's; two contact
  messages; and 25 pending registrations followed by two approved ones.
\<close>

definition primary_request :: body where
  "primary_request = amina\<lparr>section_name := ''Primary''\<rparr>"

definition later :: env where
  "later = example_env\<lparr>now := 2000\<rparr>"

definition partly_seeded :: database where
  "partly_seeded =
     empty_database\<lparr>sections := [tahfiz\<lparr>sec_capacity := 60, sec_current_enrollment := 12\<rparr>],
                    sections_seq := 4\<rparr>"

definition first_message :: contact_messages_row where
  "first_message =
     \<lparr>m_id = 1, m_name = ''Amina Yusuf'', m_email = ''amina@example.org'', m_phone = None,
      m_subject = ''Term dates'', m_message = ''When does the term start?'',
      m_status = ''unread'', m_created_at = 900, m_updated_at = 900\<rparr>"

definition second_message :: contact_messages_row where
  "second_message =
     \<lparr>m_id = 2, m_name = ''Musa Bello'', m_email = ''musa@example.org'', m_phone = None,
      m_subject = ''Fees for Tahfiz'', m_message = ''Is the annual fee payable in parts?'',
      m_status = ''replied'', m_created_at = 950, m_updated_at = 980\<rparr>"

definition inbox :: database where
  "inbox = seeded\<lparr>contact_messages := [first_message, second_message]\<rparr>"

definition pending_row :: "nat \<Rightarrow> students_row" where
  "pending_row i = new_student i i amina"

definition approved_row :: "nat \<Rightarrow> students_row" where
  "approved_row i = (new_student i i amina)\<lparr>s_status := ''approved''\<rparr>"

definition pending25 :: database where
  "pending25 =
     seeded\<lparr>students := map pending_row [1..<26] @ map approved_row [26..<28],
            students_seq := 27\<rparr>"

definition pending_page2 :: list_query where
  "pending_page2 =
     \<lparr>q_status = Some ''pending'', q_section = None, q_page = Some 2, q_limit = Some 10\<rparr>"

text \<open>
  A second family, and the seeded store with one place left in Tahfiz, with both
  submissions in flight.
\<close>

definition bello :: body where
  "bello =
     \<lparr>parentName = ''Musa Bello'', phone = ''+2348087654321'', email = None,
      studentName = ''Ibrahim Bello'', studentAge = 9, section_name = ''Tahfiz'',
      paymentPlan = ''Termly Plan'', comments = None\<rparr>"

definition last_slot :: database where
  "last_slot =
     seeded\<lparr>sections :=
       map (\<lambda>s. if sec_name s = ''Tahfiz''
                 then s\<lparr>sec_current_enrollment := 24\<rparr> else s) (sections seeded)\<rparr>"

definition two_requests :: server where
  "two_requests = \<lparr>tasks = [Fresh amina, Fresh bello], disk = last_slot, outbox = []\<rparr>"

section \<open>Properties of a registration\<close>

subsection \<open>The success path\<close>

lemma sanitize_simps:
  "phone (sanitize e b) = phone b" "email (sanitize e b) = email b"
  "studentAge (sanitize e b) = studentAge b" "section_name (sanitize e b) = section_name b"
  "paymentPlan (sanitize e b) = paymentPlan b" "comments (sanitize e b) = comments b"
  "parentName (sanitize e b) = trim e (parentName b)"
  "studentName (sanitize e b) = trim e (studentName b)"
  by (simp_all add: sanitize_def)

lemma register_success:
  assumes "registrationValidation e raw = []"
    and "\<not> db_fails e RegGetExisting" and "\<not> db_fails e RegGetSection"
    and "\<not> db_fails e RegInsertStudent" and "\<not> db_fails e RegUpdateEnrollment"
    and "get_existing_student db (sanitize e raw) = None"
    and "get_active_section db (section_name raw) = Some sectionInfo"
    and "sec_current_enrollment sectionInfo < sec_capacity sectionInfo"
  shows "register e db raw =
           \<lparr>reply = created (sanitize e raw) (fst (insert_student (now e) (sanitize e raw) db)),
            store = increment_enrollment (section_name raw)
                      (snd (insert_student (now e) (sanitize e raw) db)),
            sent = send_confirmation e (sanitize e raw)
                      (fst (insert_student (now e) (sanitize e raw) db))\<rparr>"
  using assms by (simp add: register_def Let_def sanitize_simps split: prod.split)

lemma find_increment:
  "find (\<lambda>s. sec_name s = n \<and> sec_is_active s) rows = Some r \<Longrightarrow>
   find (\<lambda>s. sec_name s = n \<and> sec_is_active s)
     (map (\<lambda>s. if sec_name s = n
                then s\<lparr>sec_current_enrollment := sec_current_enrollment s + 1\<rparr> else s) rows)
   = Some (r\<lparr>sec_current_enrollment := sec_current_enrollment r + 1\<rparr>)"
  by (induction rows) auto

lemma get_active_section_increment:
  "get_active_section db n = Some r \<Longrightarrow>
   get_active_section (increment_enrollment n db) n =
     Some (r\<lparr>sec_current_enrollment := sec_current_enrollment r + 1\<rparr>)"
  by (simp add: get_active_section_def increment_enrollment_def find_increment)

lemma fold_max_ge: "m \<le> fold max ids (m::nat)"
  by (induction ids arbitrary: m) (auto intro: order_trans[OF max.cobounded2])

lemma fold_max_mem: "i \<in> set ids \<Longrightarrow> i \<le> fold max ids (m::nat)"
  by (induction ids arbitrary: m) (auto intro: order_trans[OF max.cobounded1 fold_max_ge])

lemma next_rowid_fresh: "i \<in> set ids \<Longrightarrow> i < next_rowid seq ids"
  by (simp add: next_rowid_def fold_max_mem less_Suc_eq_le)









subsection \<open>The rejections\<close>

lemma insert_student_eq:
  "insert_student t b db =
     (next_rowid (students_seq db) (map s_id (students db)),
      db\<lparr>students := students db @
              [new_student t (next_rowid (students_seq db) (map s_id (students db))) b],
         students_seq := next_rowid (students_seq db) (map s_id (students db))\<rparr>)"
  by (simp add: insert_student_def Let_def)

lemma register_full:
  assumes "registrationValidation e raw = []"
    and "\<not> db_fails e RegGetExisting" and "\<not> db_fails e RegGetSection"
    and "get_existing_student db (sanitize e raw) = None"
    and "get_active_section db (section_name raw) = Some sectionInfo"
    and "sec_capacity sectionInfo \<le> sec_current_enrollment sectionInfo"
  shows "register e db raw = failure 400 ''Selected section is at full capacity'' db"
  using assms by (simp add: register_def Let_def sanitize_simps)

lemma register_duplicate:
  assumes "registrationValidation e raw = []"
    and "\<not> db_fails e RegGetExisting"
    and "get_existing_student db (sanitize e raw) = Some r"
  shows "register e db raw =
           failure 409 ''A student with this information is already registered'' db"
  using assms by (simp add: register_def Let_def)

lemma register_201D:
  assumes "status_code (reply (register e db raw)) = 201"
  shows "store (register e db raw) =
           increment_enrollment (section_name raw)
             (snd (insert_student (now e) (sanitize e raw) db))"
  using assms
  by (auto simp add: register_def Let_def failure_def internal_error_def sanitize_simps
      split: if_splits option.splits prod.splits)

lemma registered_is_found:
  assumes "status_code (reply (register e db raw)) = 201"
  shows "get_existing_student (store (register e db raw)) (sanitize e raw) \<noteq> None"
proof -
  let ?b = "sanitize e raw"
  let ?row = "new_student (now e) (next_rowid (students_seq db) (map s_id (students db))) ?b"
  have "?row \<in> set (students (store (register e db raw)))"
    by (simp add: register_201D[OF assms] insert_student_eq increment_enrollment_def)
  moreover have "s_student_name ?row = studentName ?b \<and> s_parent_name ?row = parentName ?b
                 \<and> s_phone ?row = phone ?b"
    by (simp add: new_student_def)
  ultimately show ?thesis
    unfolding get_existing_student_def find_None_iff by blast
qed

lemma get_existing_student_triple:
  assumes "studentName b2 = studentName b1" "parentName b2 = parentName b1" "phone b2 = phone b1"
  shows "get_existing_student db b2 = get_existing_student db b1"
  using assms by (simp add: get_existing_student_def)

text \<open>
  Claim C3. A submission that reaches the capacity check while the section's
  \<^verbatim>\<open>current_enrollment\<close> is at or above its \<^verbatim>\<open>capacity\<close> gets the 400 response
  "Selected section is at full capacity"; the store afterwards is the store before (no
  row, no counter changed), nothing is sent, and the same call on the resulting store
  gives the same outcome again.
\<close>

theorem full_section_rejects:
  assumes valid: "registrationValidation e raw = []"
    and fresh: "get_existing_student db (sanitize e raw) = None"
    and found: "get_active_section db (section_name raw) = Some sectionInfo"
    and full: "sec_capacity sectionInfo \<le> sec_current_enrollment sectionInfo"
    and works: "\<not> db_fails e RegGetExisting \<and> \<not> db_fails e RegGetSection"
  shows "reply (register e db raw) =
           \<lparr>status_code = 400, success = False,
            message = ''Selected section is at full capacity'', data = None, errors = None\<rparr>
       \<and> store (register e db raw) = db
       \<and> sent (register e db raw) = []
       \<and> register e (store (register e db raw)) raw = register e db raw"
proof -
  have out: "register e db raw = failure 400 ''Selected section is at full capacity'' db"
    using register_full[OF valid _ _ fresh found full] works by simp
  have same: "store (register e db raw) = db"
    by (simp add: out failure_def)
  show ?thesis
    by (simp add: same) (simp add: out failure_def)
qed

theorem full_section_rejects_witness:
  "registrationValidation example_env amina = []
   \<and> get_existing_student tahfiz_full (sanitize example_env amina) = None
   \<and> get_active_section tahfiz_full (section_name amina) =
         Some (tahfiz\<lparr>sec_current_enrollment := 25\<rparr>)
   \<and> sec_capacity (tahfiz\<lparr>sec_current_enrollment := 25\<rparr>)
         \<le> sec_current_enrollment (tahfiz\<lparr>sec_current_enrollment := 25\<rparr>)
   \<and> \<not> db_fails example_env RegGetExisting \<and> \<not> db_fails example_env RegGetSection
   \<and> status_code (reply (register example_env tahfiz_full amina)) = 400
   \<and> message (reply (register example_env tahfiz_full amina)) =
         ''Selected section is at full capacity''
   \<and> store (register example_env tahfiz_full amina) = tahfiz_full
   \<and> register example_env (store (register example_env tahfiz_full amina)) amina =
         register example_env tahfiz_full amina"
proof -
  have h1: "registrationValidation example_env amina = []" by code_simp
  have h2: "get_existing_student tahfiz_full (sanitize example_env amina) = None" by code_simp
  have h3: "get_active_section tahfiz_full (section_name amina) =
              Some (tahfiz\<lparr>sec_current_enrollment := 25\<rparr>)"
    unfolding tahfiz_def by code_simp
  have h4: "sec_capacity (tahfiz\<lparr>sec_current_enrollment := 25\<rparr>)
              \<le> sec_current_enrollment (tahfiz\<lparr>sec_current_enrollment := 25\<rparr>)"
    by (simp add: tahfiz_def)
  have h5: "\<not> db_fails example_env RegGetExisting \<and> \<not> db_fails example_env RegGetSection"
    by (simp add: example_env_def)
  note r = full_section_rejects[OF h1 h2 h3 h4 h5]
  from r have a: "status_code (reply (register example_env tahfiz_full amina)) = 400"
    and b: "message (reply (register example_env tahfiz_full amina)) =
              ''Selected section is at full capacity''"
    by simp_all
  from r have c: "store (register example_env tahfiz_full amina) = tahfiz_full"
    and d: "register example_env (store (register example_env tahfiz_full amina)) amina =
              register example_env tahfiz_full amina"
    by blast+
  show ?thesis using h1 h2 h3 h4 h5 a b c d by blast
qed

text \<open>
  Claim C4. After a submission has been registered (201), a second submission with the
  same student name, parent name and phone that passes validation gets the 409 response
  while the lookup works; the store it leaves is the store it found, so no row is added
  and no enrollment changes, and nothing is sent. The same holds on any store in which
  the lookup finds a row with the submission's triple.
\<close>

theorem duplicate_is_conflict:
  assumes first: "status_code (reply (register e1 db b1)) = 201"
    and same: "studentName b2 = studentName b1 \<and> parentName b2 = parentName b1
               \<and> phone b2 = phone b1"
    and lib: "trim e2 = trim e1"
    and valid: "registrationValidation e2 b2 = []"
    and works: "\<not> db_fails e2 RegGetExisting"
  shows "reply (register e2 (store (register e1 db b1)) b2) =
           \<lparr>status_code = 409, success = False,
            message = ''A student with this information is already registered'',
            data = None, errors = None\<rparr>
       \<and> store (register e2 (store (register e1 db b1)) b2) = store (register e1 db b1)
       \<and> sent (register e2 (store (register e1 db b1)) b2) = []
       \<and> (\<forall>db' r. get_existing_student db' (sanitize e2 b2) = Some r \<longrightarrow>
            register e2 db' b2 =
              failure 409 ''A student with this information is already registered'' db')"
proof -
  let ?db = "store (register e1 db b1)"
  have "get_existing_student ?db (sanitize e2 b2) = get_existing_student ?db (sanitize e1 b1)"
    using same lib by (intro get_existing_student_triple) (simp_all add: sanitize_simps)
  with registered_is_found[OF first]
  obtain r where "get_existing_student ?db (sanitize e2 b2) = Some r"
    by (cases "get_existing_student ?db (sanitize e2 b2)") auto
  from register_duplicate[OF valid works this]
  have second: "register e2 ?db b2 =
      failure 409 ''A student with this information is already registered'' ?db" .
  have always: "\<forall>db' r. get_existing_student db' (sanitize e2 b2) = Some r \<longrightarrow>
      register e2 db' b2 =
        failure 409 ''A student with this information is already registered'' db'"
    using register_duplicate[OF valid works] by blast
  show ?thesis using always by (simp add: second failure_def)
qed

theorem duplicate_is_conflict_witness:
  "status_code (reply (register example_env seeded amina)) = 201
   \<and> (studentName amina_mail = studentName amina \<and> parentName amina_mail = parentName amina
        \<and> phone amina_mail = phone amina)
   \<and> trim example_env = trim example_env
   \<and> registrationValidation example_env amina_mail = []
   \<and> \<not> db_fails example_env RegGetExisting
   \<and> status_code (reply (register example_env (store (register example_env seeded amina))
         amina_mail)) = 409
   \<and> store (register example_env (store (register example_env seeded amina)) amina_mail) =
         store (register example_env seeded amina)
   \<and> map sec_current_enrollment (sections (store (register example_env
         (store (register example_env seeded amina)) amina_mail))) = [0, 0, 0, 1, 0, 0]"
proof -
  have h1: "status_code (reply (register example_env seeded amina)) = 201" by code_simp
  have h2: "studentName amina_mail = studentName amina \<and> parentName amina_mail = parentName amina
              \<and> phone amina_mail = phone amina"
    by (simp add: amina_mail_def)
  have h3: "trim example_env = trim example_env" by simp
  have h4: "registrationValidation example_env amina_mail = []" by code_simp
  have h5: "\<not> db_fails example_env RegGetExisting" by (simp add: example_env_def)
  have once: "map sec_current_enrollment (sections (store (register example_env seeded amina))) =
                [0, 0, 0, 1, 0, 0]"
    by code_simp
  note r = duplicate_is_conflict[OF h1 h2 h3 h4 h5]
  from r have a: "status_code (reply (register example_env
      (store (register example_env seeded amina)) amina_mail)) = 409"
    by simp
  from r have b: "store (register example_env (store (register example_env seeded amina))
      amina_mail) = store (register example_env seeded amina)"
    by blast
  show ?thesis using h1 h2 h3 h4 h5 a b once by simp
qed

subsection \<open>The confirmation mail\<close>

lemma send_confirmation_failing:
  "email b = Some a \<Longrightarrow> \<not> sendMail e (confirmation b rid a) \<Longrightarrow> send_confirmation e b rid = []"
  by (simp add: send_confirmation_def sendEmail_def)

lemma send_confirmation_working:
  "email b = Some a \<Longrightarrow> a \<noteq> [] \<Longrightarrow> sendMail e (confirmation b rid a) \<Longrightarrow>
   send_confirmation e b rid = [confirmation b rid a]"
  by (simp add: send_confirmation_def sendEmail_def)

lemma registrationValidation_transport [simp]:
  "registrationValidation (e\<lparr>sendMail := f\<rparr>) raw = registrationValidation e raw"
  by (simp add: registrationValidation_def cong: option.case_cong)

lemma sanitize_transport [simp]: "sanitize (e\<lparr>sendMail := f\<rparr>) raw = sanitize e raw"
  by (simp add: sanitize_def)

text \<open>
  Claim C6. For a submission with an address that reaches the insert on a working store,
  a transport that raises on every message leaves the response and the store exactly as
  a transport that accepts every message does: the response is the 201, the row is
  stored, the section has one more enrollment. Only the outbox differs: it holds the
  confirmation when the transport accepts and nothing when it raises.
\<close>

theorem notification_failure_is_swallowed:
  assumes valid: "registrationValidation e raw = []"
    and fresh: "get_existing_student db (sanitize e raw) = None"
    and found: "get_active_section db (section_name raw) = Some sectionInfo"
    and room: "sec_current_enrollment sectionInfo < sec_capacity sectionInfo"
    and works: "\<forall>c. \<not> db_fails e c"
    and addr: "email raw = Some a \<and> a \<noteq> []"
    and raises: "\<forall>m. \<not> sendMail e m"
  shows "reply (register e db raw) = reply (register (e\<lparr>sendMail := \<lambda>m. True\<rparr>) db raw)
       \<and> store (register e db raw) = store (register (e\<lparr>sendMail := \<lambda>m. True\<rparr>) db raw)
       \<and> sent (register e db raw) = []
       \<and> sent (register (e\<lparr>sendMail := \<lambda>m. True\<rparr>) db raw) =
           [confirmation (sanitize e raw)
              (next_rowid (students_seq db) (map s_id (students db))) a]
       \<and> status_code (reply (register e db raw)) = 201
       \<and> success (reply (register e db raw))
       \<and> students (store (register e db raw)) =
           students db @ [new_student (now e)
                            (next_rowid (students_seq db) (map s_id (students db)))
                            (sanitize e raw)]
       \<and> get_active_section (store (register e db raw)) (section_name raw) =
           Some (sectionInfo\<lparr>sec_current_enrollment := sec_current_enrollment sectionInfo + 1\<rparr>)"
proof -
  let ?e' = "e\<lparr>sendMail := \<lambda>m. True\<rparr>"
  let ?b = "sanitize e raw"
  let ?rid = "next_rowid (students_seq db) (map s_id (students db))"
  have out: "register e db raw =
               \<lparr>reply = created ?b ?rid,
                store = increment_enrollment (section_name raw)
                          (snd (insert_student (now e) ?b db)),
                sent = send_confirmation e ?b ?rid\<rparr>"
    using register_success[OF valid _ _ _ _ fresh found room] works
    by (simp add: insert_student_eq)
  have out': "register ?e' db raw =
               \<lparr>reply = created ?b ?rid,
                store = increment_enrollment (section_name raw)
                          (snd (insert_student (now e) ?b db)),
                sent = send_confirmation ?e' ?b ?rid\<rparr>"
    using register_success[of ?e' raw db sectionInfo] valid fresh found room works
    by (simp add: insert_student_eq)
  have mail: "email ?b = Some a" using addr by (simp add: sanitize_simps)
  have none: "sent (register e db raw) = []"
    using send_confirmation_failing[OF mail] raises by (simp add: out)
  have one: "sent (register ?e' db raw) = [confirmation ?b ?rid a]"
    using send_confirmation_working[OF mail, of ?e' ?rid] addr by (simp add: out')
  have rows: "students (store (register e db raw)) = students db @ [new_student (now e) ?rid ?b]"
    by (simp add: out insert_student_eq increment_enrollment_def)
  have "get_active_section (snd (insert_student (now e) ?b db)) (section_name raw) =
          Some sectionInfo"
    using found by (simp add: insert_student_eq get_active_section_def)
  then have sec: "get_active_section (store (register e db raw)) (section_name raw) =
      Some (sectionInfo\<lparr>sec_current_enrollment := sec_current_enrollment sectionInfo + 1\<rparr>)"
    by (simp add: out get_active_section_increment)
  have same: "reply (register e db raw) = reply (register ?e' db raw)"
    "store (register e db raw) = store (register ?e' db raw)"
    by (simp_all add: out out')
  have ok: "status_code (reply (register e db raw)) = 201" "success (reply (register e db raw))"
    by (simp_all add: out created_def)
  show ?thesis
    by (intro conjI) (fact same none one ok rows sec)+
qed

theorem notification_failure_is_swallowed_witness:
  "registrationValidation example_env amina_mail = []
   \<and> get_existing_student seeded (sanitize example_env amina_mail) = None
   \<and> get_active_section seeded (section_name amina_mail) = Some tahfiz
   \<and> sec_current_enrollment tahfiz < sec_capacity tahfiz
   \<and> (\<forall>c. \<not> db_fails example_env c)
   \<and> (email amina_mail = Some ''amina@example.org'' \<and> ''amina@example.org'' \<noteq> [])
   \<and> (\<forall>m. \<not> sendMail example_env m)
   \<and> status_code (reply (register example_env seeded amina_mail)) = 201
   \<and> sent (register example_env seeded amina_mail) = []
   \<and> length (students (store (register example_env seeded amina_mail))) = 1
   \<and> get_active_section (store (register example_env seeded amina_mail))
         (section_name amina_mail) = Some (tahfiz\<lparr>sec_current_enrollment := 1\<rparr>)"
proof -
  have h1: "registrationValidation example_env amina_mail = []" by code_simp
  have h2: "get_existing_student seeded (sanitize example_env amina_mail) = None" by code_simp
  have h3: "get_active_section seeded (section_name amina_mail) = Some tahfiz"
    unfolding tahfiz_def by code_simp
  have h4: "sec_current_enrollment tahfiz < sec_capacity tahfiz" by code_simp
  have h5: "\<forall>c. \<not> db_fails example_env c" by (simp add: example_env_def)
  have h6: "email amina_mail = Some ''amina@example.org'' \<and> ''amina@example.org'' \<noteq> []"
    by (simp add: amina_mail_def)
  have h7: "\<forall>m. \<not> sendMail example_env m" by (simp add: example_env_def)
  have old: "students seeded = []" by code_simp
  have e0: "sec_current_enrollment tahfiz = 0" by code_simp
  note r = notification_failure_is_swallowed[OF h1 h2 h3 h4 h5 h6 h7]
  from r have a: "status_code (reply (register example_env seeded amina_mail)) = 201"
    and b: "sent (register example_env seeded amina_mail) = []"
    by blast+
  from r have "students (store (register example_env seeded amina_mail)) =
      students seeded @ [new_student (now example_env)
        (next_rowid (students_seq seeded) (map s_id (students seeded)))
        (sanitize example_env amina_mail)]"
    by blast
  then have c: "length (students (store (register example_env seeded amina_mail))) = 1"
    by (simp add: old)
  from r have "get_active_section (store (register example_env seeded amina_mail))
      (section_name amina_mail) =
      Some (tahfiz\<lparr>sec_current_enrollment := sec_current_enrollment tahfiz + 1\<rparr>)"
    by blast
  then have d: "get_active_section (store (register example_env seeded amina_mail))
         (section_name amina_mail) = Some (tahfiz\<lparr>sec_current_enrollment := 1\<rparr>)"
    by (simp add: e0)
  show ?thesis using h1 h2 h3 h4 h5 h6 h7 a b c d by blast
qed

subsection \<open>Store faults between the two writes\<close>

lemma register_insert_fails:
  assumes "registrationValidation e raw = []"
    and "\<not> db_fails e RegGetExisting" and "\<not> db_fails e RegGetSection"
    and "get_existing_student db (sanitize e raw) = None"
    and "get_active_section db (section_name raw) = Some sectionInfo"
    and "sec_current_enrollment sectionInfo < sec_capacity sectionInfo"
    and "db_fails e RegInsertStudent"
  shows "register e db raw = internal_error db"
  using assms by (simp add: register_def Let_def sanitize_simps)

lemma register_update_fails:
  assumes "registrationValidation e raw = []"
    and "\<not> db_fails e RegGetExisting" and "\<not> db_fails e RegGetSection"
    and "get_existing_student db (sanitize e raw) = None"
    and "get_active_section db (section_name raw) = Some sectionInfo"
    and "sec_current_enrollment sectionInfo < sec_capacity sectionInfo"
    and "\<not> db_fails e RegInsertStudent" and "db_fails e RegUpdateEnrollment"
  shows "register e db raw = internal_error (snd (insert_student (now e) (sanitize e raw) db))"
  using assms by (simp add: register_def Let_def sanitize_simps split: prod.split)

text \<open>
  Claim C2, as stated, fails: when the update of the section rejects after the insert
  succeeded, the new row is in \<^verbatim>\<open>students\<close> and no enrollment has changed.
\<close>

theorem row_without_increment:
  "status_code (reply (register update_fails seeded amina)) = 500
   \<and> students seeded = []
   \<and> map s_student_name (students (store (register update_fails seeded amina))) =
         [''Fatima Yusuf'']
   \<and> sections (store (register update_fails seeded amina)) = sections seeded
   \<and> map sec_current_enrollment (sections (store (register update_fails seeded amina))) =
         [0, 0, 0, 0, 0, 0]"
  by code_simp

text \<open>
  Claim C2, amended. The insert and the increment are two store calls, in that order,
  with nothing around them. For a submission that reaches the insert: if the insert
  rejects, the store is unchanged and the response is 500; if both calls succeed, the
  row and the incremented counter are both there and the response is 201; if the
  insert succeeds and the update rejects, the row is there, the sections are
  unchanged and the response is 500.
\<close>

theorem insert_and_increment_are_separate_writes:
  assumes valid: "registrationValidation e raw = []"
    and fresh: "get_existing_student db (sanitize e raw) = None"
    and found: "get_active_section db (section_name raw) = Some sectionInfo"
    and room: "sec_current_enrollment sectionInfo < sec_capacity sectionInfo"
    and reads: "\<not> db_fails e RegGetExisting \<and> \<not> db_fails e RegGetSection"
  shows "(db_fails e RegInsertStudent \<longrightarrow>
            store (register e db raw) = db
          \<and> status_code (reply (register e db raw)) = 500)
       \<and> (\<not> db_fails e RegInsertStudent \<and> \<not> db_fails e RegUpdateEnrollment \<longrightarrow>
            students (store (register e db raw)) =
              students db @ [new_student (now e)
                               (next_rowid (students_seq db) (map s_id (students db)))
                               (sanitize e raw)]
          \<and> sections (store (register e db raw)) =
              map (\<lambda>s. if sec_name s = section_name raw
                        then s\<lparr>sec_current_enrollment := sec_current_enrollment s + 1\<rparr>
                        else s) (sections db)
          \<and> status_code (reply (register e db raw)) = 201)
       \<and> (\<not> db_fails e RegInsertStudent \<and> db_fails e RegUpdateEnrollment \<longrightarrow>
            students (store (register e db raw)) =
              students db @ [new_student (now e)
                               (next_rowid (students_seq db) (map s_id (students db)))
                               (sanitize e raw)]
          \<and> sections (store (register e db raw)) = sections db
          \<and> status_code (reply (register e db raw)) = 500)"
proof (intro conjI impI)
  assume f: "db_fails e RegInsertStudent"
  have out: "register e db raw = internal_error db"
    using register_insert_fails[OF valid _ _ fresh found room f] reads by simp
  show "store (register e db raw) = db"
    by (simp add: out internal_error_def failure_def)
  show "status_code (reply (register e db raw)) = 500"
    by (simp add: out internal_error_def failure_def)
next
  assume ok: "\<not> db_fails e RegInsertStudent \<and> \<not> db_fails e RegUpdateEnrollment"
  have out: "register e db raw =
      \<lparr>reply = created (sanitize e raw) (fst (insert_student (now e) (sanitize e raw) db)),
       store = increment_enrollment (section_name raw)
                 (snd (insert_student (now e) (sanitize e raw) db)),
       sent = send_confirmation e (sanitize e raw)
                 (fst (insert_student (now e) (sanitize e raw) db))\<rparr>"
    using register_success[OF valid _ _ _ _ fresh found room] reads ok by simp
  show "students (store (register e db raw)) =
          students db @ [new_student (now e)
                           (next_rowid (students_seq db) (map s_id (students db)))
                           (sanitize e raw)]"
    by (simp add: out insert_student_eq increment_enrollment_def)
  show "sections (store (register e db raw)) =
          map (\<lambda>s. if sec_name s = section_name raw
                    then s\<lparr>sec_current_enrollment := sec_current_enrollment s + 1\<rparr>
                    else s) (sections db)"
    by (simp add: out insert_student_eq increment_enrollment_def)
  show "status_code (reply (register e db raw)) = 201"
    by (simp add: out created_def)
next
  assume half: "\<not> db_fails e RegInsertStudent \<and> db_fails e RegUpdateEnrollment"
  have out: "register e db raw =
      internal_error (snd (insert_student (now e) (sanitize e raw) db))"
    using register_update_fails[OF valid _ _ fresh found room] reads half by simp
  show "students (store (register e db raw)) =
          students db @ [new_student (now e)
                           (next_rowid (students_seq db) (map s_id (students db)))
                           (sanitize e raw)]"
    by (simp add: out insert_student_eq internal_error_def failure_def)
  show "sections (store (register e db raw)) = sections db"
    by (simp add: out insert_student_eq internal_error_def failure_def)
  show "status_code (reply (register e db raw)) = 500"
    by (simp add: out internal_error_def failure_def)
qed

theorem insert_and_increment_are_separate_writes_witness:
  "registrationValidation insert_fails amina = []
   \<and> registrationValidation example_env amina = []
   \<and> registrationValidation update_fails amina = []
   \<and> get_existing_student seeded (sanitize insert_fails amina) = None
   \<and> get_existing_student seeded (sanitize example_env amina) = None
   \<and> get_existing_student seeded (sanitize update_fails amina) = None
   \<and> get_active_section seeded (section_name amina) = Some tahfiz
   \<and> sec_current_enrollment tahfiz < sec_capacity tahfiz
   \<and> db_fails insert_fails RegInsertStudent
   \<and> \<not> db_fails example_env RegInsertStudent \<and> \<not> db_fails example_env RegUpdateEnrollment
   \<and> \<not> db_fails update_fails RegInsertStudent \<and> db_fails update_fails RegUpdateEnrollment
   \<and> store (register insert_fails seeded amina) = seeded
   \<and> status_code (reply (register insert_fails seeded amina)) = 500
   \<and> length (students (store (register example_env seeded amina))) = 1
   \<and> status_code (reply (register example_env seeded amina)) = 201
   \<and> length (students (store (register update_fails seeded amina))) = 1
   \<and> sections (store (register update_fails seeded amina)) = sections seeded
   \<and> status_code (reply (register update_fails seeded amina)) = 500"
proof -
  have v: "registrationValidation insert_fails amina = []"
    "registrationValidation example_env amina = []"
    "registrationValidation update_fails amina = []"
    by code_simp+
  have n: "get_existing_student seeded (sanitize insert_fails amina) = None"
    "get_existing_student seeded (sanitize example_env amina) = None"
    "get_existing_student seeded (sanitize update_fails amina) = None"
    by code_simp+
  have s: "get_active_section seeded (section_name amina) = Some tahfiz"
    unfolding tahfiz_def by code_simp
  have r: "sec_current_enrollment tahfiz < sec_capacity tahfiz" by code_simp
  have g: "\<not> db_fails insert_fails RegGetExisting \<and> \<not> db_fails insert_fails RegGetSection"
    "\<not> db_fails example_env RegGetExisting \<and> \<not> db_fails example_env RegGetSection"
    "\<not> db_fails update_fails RegGetExisting \<and> \<not> db_fails update_fails RegGetSection"
    by (simp_all add: insert_fails_def update_fails_def example_env_def)
  have f1: "db_fails insert_fails RegInsertStudent"
    by (simp add: insert_fails_def)
  have f2: "\<not> db_fails example_env RegInsertStudent \<and> \<not> db_fails example_env RegUpdateEnrollment"
    by (simp add: example_env_def)
  have f3: "\<not> db_fails update_fails RegInsertStudent \<and> db_fails update_fails RegUpdateEnrollment"
    by (simp add: update_fails_def example_env_def)
  have old: "students seeded = []" by code_simp
  note t1 = insert_and_increment_are_separate_writes[OF v(1) n(1) s r g(1)]
  note t2 = insert_and_increment_are_separate_writes[OF v(2) n(2) s r g(2)]
  note t3 = insert_and_increment_are_separate_writes[OF v(3) n(3) s r g(3)]
  from t1 f1 have a: "store (register insert_fails seeded amina) = seeded"
    "status_code (reply (register insert_fails seeded amina)) = 500"
    by blast+
  from t2 f2 have "students (store (register example_env seeded amina)) =
      students seeded @ [new_student (now example_env)
        (next_rowid (students_seq seeded) (map s_id (students seeded)))
        (sanitize example_env amina)]"
    and b2: "status_code (reply (register example_env seeded amina)) = 201"
    by blast+
  then have b1: "length (students (store (register example_env seeded amina))) = 1"
    by (simp add: old)
  from t3 f3 have "students (store (register update_fails seeded amina)) =
      students seeded @ [new_student (now update_fails)
        (next_rowid (students_seq seeded) (map s_id (students seeded)))
        (sanitize update_fails amina)]"
    and c2: "sections (store (register update_fails seeded amina)) = sections seeded"
    and c3: "status_code (reply (register update_fails seeded amina)) = 500"
    by blast+
  then have c1: "length (students (store (register update_fails seeded amina))) = 1"
    by (simp add: old)
  show ?thesis using v n s r f1 f2 f3 a b1 b2 c1 c2 c3 by blast
qed

subsection \<open>Several submissions to one section\<close>

text \<open>A task that is stepped alone to its end does what the handler does.\<close>

lemma handler_alone:
  "steps e 5 (Fresh raw) db =
     (Finished (reply (register e db raw)), store (register e db raw), sent (register e db raw))"
  by (simp add: eval_nat_numeral register_def Let_def internal_error_def failure_def
      split: option.splits prod.splits)

lemma get_existing_student_after_insert:
  "get_existing_student
     (increment_enrollment n (snd (insert_student t b db))) b' = None
   \<longleftrightarrow> get_existing_student db b' = None \<and> triple b' \<noteq> triple b"
proof -
  let ?row = "new_student t (next_rowid (students_seq db) (map s_id (students db))) b"
  let ?P = "\<lambda>r. s_student_name r = studentName b' \<and> s_parent_name r = parentName b'
                \<and> s_phone r = phone b'"
  have rows: "students (increment_enrollment n (snd (insert_student t b db))) =
                students db @ [?row]"
    by (simp add: insert_student_eq increment_enrollment_def)
  have row: "?P ?row \<longleftrightarrow> triple b' = triple b"
    by (auto simp add: new_student_def triple_def)
  show ?thesis
    unfolding get_existing_student_def find_None_iff rows using row by auto
qed

lemma get_active_section_after_success:
  assumes "get_active_section db n = Some sectionInfo"
  shows "get_active_section (increment_enrollment n (snd (insert_student t b db))) n =
           Some (sectionInfo\<lparr>sec_current_enrollment := sec_current_enrollment sectionInfo + 1\<rparr>)"
proof -
  have "get_active_section (snd (insert_student t b db)) n = Some sectionInfo"
    using assms by (simp add: insert_student_eq get_active_section_def)
  then show ?thesis by (rule get_active_section_increment)
qed

lemma register_all_fills:
  assumes "\<forall>raw\<in>set raws. registrationValidation e raw = [] \<and> section_name raw = n"
    and "distinct (map (\<lambda>raw. triple (sanitize e raw)) raws)"
    and "\<forall>raw\<in>set raws. get_existing_student db (sanitize e raw) = None"
    and "get_active_section db n = Some sectionInfo"
    and "sec_current_enrollment sectionInfo + int k = sec_capacity sectionInfo"
    and "\<forall>c. \<not> db_fails e c"
  shows "map (\<lambda>r. (status_code r, message r)) (fst (register_all e db raws)) =
           replicate (min k (length raws)) (201, ''Registration successful'')
           @ replicate (length raws - k) (400, ''Selected section is at full capacity'')
       \<and> get_active_section (snd (register_all e db raws)) n =
           Some (sectionInfo\<lparr>sec_current_enrollment :=
                   sec_current_enrollment sectionInfo + int (min k (length raws))\<rparr>)
       \<and> length (students (snd (register_all e db raws))) =
           length (students db) + min k (length raws)"
  using assms
proof (induction raws arbitrary: db sectionInfo k)
  case Nil
  then show ?case by simp
next
  case (Cons raw rest)
  have valid: "registrationValidation e raw = []" and sec: "section_name raw = n"
    using Cons.prems(1) by simp_all
  have fresh: "get_existing_student db (sanitize e raw) = None"
    using Cons.prems(3) by simp
  have found: "get_active_section db (section_name raw) = Some sectionInfo"
    using Cons.prems(4) sec by simp
  have works: "\<not> db_fails e RegGetExisting" "\<not> db_fails e RegGetSection"
    "\<not> db_fails e RegInsertStudent" "\<not> db_fails e RegUpdateEnrollment"
    using Cons.prems(6) by simp_all
  have rest1: "\<forall>r\<in>set rest. registrationValidation e r = [] \<and> section_name r = n"
    using Cons.prems(1) by simp
  have rest2: "distinct (map (\<lambda>r. triple (sanitize e r)) rest)"
    using Cons.prems(2) by simp
  show ?case
  proof (cases k)
    case 0
    then have full: "sec_capacity sectionInfo \<le> sec_current_enrollment sectionInfo"
      using Cons.prems(5) by simp
    have out: "register e db raw = failure 400 ''Selected section is at full capacity'' db"
      by (rule register_full[OF valid works(1,2) fresh found full])
    have rest3: "\<forall>r\<in>set rest. get_existing_student db (sanitize e r) = None"
      using Cons.prems(3) by simp
    note ih = Cons.IH[OF rest1 rest2 rest3 Cons.prems(4) Cons.prems(5) Cons.prems(6)]
    show ?thesis using ih 0
      by (simp add: out failure_def case_prod_beta)
  next
    case (Suc j)
    then have room: "sec_current_enrollment sectionInfo < sec_capacity sectionInfo"
      using Cons.prems(5) by simp
    let ?db' = "increment_enrollment (section_name raw)
                  (snd (insert_student (now e) (sanitize e raw) db))"
    let ?sec' = "sectionInfo\<lparr>sec_current_enrollment := sec_current_enrollment sectionInfo + 1\<rparr>"
    have out: "register e db raw =
        \<lparr>reply = created (sanitize e raw) (fst (insert_student (now e) (sanitize e raw) db)),
         store = ?db',
         sent = send_confirmation e (sanitize e raw)
                  (fst (insert_student (now e) (sanitize e raw) db))\<rparr>"
      by (rule register_success[OF valid works fresh found room])
    have rest3: "\<forall>r\<in>set rest. get_existing_student ?db' (sanitize e r) = None"
    proof
      fix r assume r: "r \<in> set rest"
      then have "triple (sanitize e r) \<in> (\<lambda>raw. triple (sanitize e raw)) ` set rest"
        by (rule imageI)
      moreover have "triple (sanitize e raw) \<notin> (\<lambda>raw. triple (sanitize e raw)) ` set rest"
        using Cons.prems(2) by simp
      ultimately have "triple (sanitize e r) \<noteq> triple (sanitize e raw)" by metis
      moreover have "get_existing_student db (sanitize e r) = None"
        using Cons.prems(3) r by simp
      ultimately show "get_existing_student ?db' (sanitize e r) = None"
        by (simp add: get_existing_student_after_insert)
    qed
    have found': "get_active_section ?db' n = Some ?sec'"
      using get_active_section_after_success[OF found] sec by simp
    have slots': "sec_current_enrollment ?sec' + int j = sec_capacity ?sec'"
      using Cons.prems(5) Suc by simp
    have len': "length (students ?db') = Suc (length (students db))"
      by (simp add: insert_student_eq increment_enrollment_def)
    note ih = Cons.IH[OF rest1 rest2 rest3 found' slots' Cons.prems(6)]
    show ?thesis using ih Suc
      by (simp add: out created_def len' case_prod_beta)
  qed
qed



text \<open>
  Claim C7, as stated, fails: with one place left in Tahfiz, two submissions whose
  handlers take turns at every await both read an enrollment of 24, both pass the
  capacity check, both insert and both increment; both are answered 201 and the
  enrollment is 26 with a capacity of 25.
\<close>

theorem interleaved_requests_oversell:
  "get_active_section last_slot ''Tahfiz'' = Some (tahfiz\<lparr>sec_current_enrollment := 24\<rparr>)
   \<and> sec_capacity tahfiz = 25
   \<and> tasks (run_schedule example_env [0, 1, 0, 1, 0, 1, 0, 1, 0, 1] two_requests) =
         [Finished (created amina 1), Finished (created bello 2)]
   \<and> map status_code [created amina 1, created bello 2] = [201, 201]
   \<and> get_active_section
         (disk (run_schedule example_env [0, 1, 0, 1, 0, 1, 0, 1, 0, 1] two_requests)) ''Tahfiz'' =
         Some (tahfiz\<lparr>sec_current_enrollment := 26\<rparr>)"
  unfolding tahfiz_def by code_simp

text \<open>
  Claim C7, amended. When the submissions are handled one after another, each handler
  responding before the next starts, on a working store, each passing validation and
  naming the same section, with pairwise different triples none of which is registered,
  and the section is active with \<open>k\<close> places left: the first \<open>min k N\<close> are
  answered 201 and the remaining \<open>N - k\<close> are answered 400 "Selected section is at
  full capacity", \<open>min k N\<close> rows are added, and after every prefix of the submissions
  the section's enrollment is its old value plus the number registered so far, which
  never exceeds the capacity.
\<close>

theorem sequential_submissions_never_oversell:
  assumes valid: "\<forall>raw\<in>set raws. registrationValidation e raw = [] \<and> section_name raw = n"
    and differ: "distinct (map (\<lambda>raw. triple (sanitize e raw)) raws)"
    and fresh: "\<forall>raw\<in>set raws. get_existing_student db (sanitize e raw) = None"
    and found: "get_active_section db n = Some sectionInfo"
    and slots: "sec_current_enrollment sectionInfo + int k = sec_capacity sectionInfo"
    and works: "\<forall>c. \<not> db_fails e c"
  shows "map (\<lambda>r. (status_code r, message r)) (fst (register_all e db raws)) =
           replicate (min k (length raws)) (201, ''Registration successful'')
           @ replicate (length raws - k) (400, ''Selected section is at full capacity'')
       \<and> length (students (snd (register_all e db raws))) =
           length (students db) + min k (length raws)
       \<and> (\<forall>m. get_active_section (snd (register_all e db (take m raws))) n =
                Some (sectionInfo\<lparr>sec_current_enrollment :=
                        sec_current_enrollment sectionInfo + int (min k (min (length raws) m))\<rparr>)
              \<and> sec_current_enrollment sectionInfo + int (min k (min (length raws) m))
                  \<le> sec_capacity sectionInfo)"
proof -
  have all: "map (\<lambda>r. (status_code r, message r)) (fst (register_all e db raws)) =
           replicate (min k (length raws)) (201, ''Registration successful'')
           @ replicate (length raws - k) (400, ''Selected section is at full capacity'')"
    and rows: "length (students (snd (register_all e db raws))) =
           length (students db) + min k (length raws)"
    using register_all_fills[OF valid differ fresh found slots works] by blast+
  have every: "get_active_section (snd (register_all e db (take m raws))) n =
                Some (sectionInfo\<lparr>sec_current_enrollment :=
                        sec_current_enrollment sectionInfo + int (min k (min (length raws) m))\<rparr>)
              \<and> sec_current_enrollment sectionInfo + int (min k (min (length raws) m))
                  \<le> sec_capacity sectionInfo" for m
  proof -
    have v: "\<forall>raw\<in>set (take m raws). registrationValidation e raw = [] \<and> section_name raw = n"
      using valid by (meson in_set_takeD)
    have d: "distinct (map (\<lambda>raw. triple (sanitize e raw)) (take m raws))"
      using differ by (simp add: take_map[symmetric] distinct_take)
    have f: "\<forall>raw\<in>set (take m raws). get_existing_student db (sanitize e raw) = None"
      using fresh by (meson in_set_takeD)
    from register_all_fills[OF v d f found slots works]
    have "get_active_section (snd (register_all e db (take m raws))) n =
            Some (sectionInfo\<lparr>sec_current_enrollment :=
                    sec_current_enrollment sectionInfo + int (min k (min (length raws) m))\<rparr>)"
      by simp
    moreover have "sec_current_enrollment sectionInfo + int (min k (min (length raws) m))
                     \<le> sec_capacity sectionInfo"
      using slots by linarith
    ultimately show ?thesis by blast
  qed
  show ?thesis using all rows every by blast
qed

theorem sequential_submissions_never_oversell_witness:
  "(registrationValidation example_env amina = [] \<and> section_name amina = ''Tahfiz'')
   \<and> (registrationValidation example_env bello = [] \<and> section_name bello = ''Tahfiz'')
   \<and> triple (sanitize example_env amina) \<noteq> triple (sanitize example_env bello)
   \<and> get_existing_student last_slot (sanitize example_env amina) = None
   \<and> get_existing_student last_slot (sanitize example_env bello) = None
   \<and> get_active_section last_slot ''Tahfiz'' = Some (tahfiz\<lparr>sec_current_enrollment := 24\<rparr>)
   \<and> sec_current_enrollment (tahfiz\<lparr>sec_current_enrollment := 24\<rparr>) + int 1 =
         sec_capacity (tahfiz\<lparr>sec_current_enrollment := 24\<rparr>)
   \<and> (\<forall>c. \<not> db_fails example_env c)
   \<and> map (\<lambda>r. (status_code r, message r))
         (fst (register_all example_env last_slot [amina, bello])) =
         [(201, ''Registration successful''), (400, ''Selected section is at full capacity'')]
   \<and> length (students (snd (register_all example_env last_slot [amina, bello]))) = 1
   \<and> get_active_section (snd (register_all example_env last_slot [amina, bello])) ''Tahfiz'' =
         Some (tahfiz\<lparr>sec_current_enrollment := 25\<rparr>)"
proof -
  have v1: "registrationValidation example_env amina = [] \<and> section_name amina = ''Tahfiz''"
    by code_simp
  have v2: "registrationValidation example_env bello = [] \<and> section_name bello = ''Tahfiz''"
    by code_simp
  have d: "triple (sanitize example_env amina) \<noteq> triple (sanitize example_env bello)"
    by code_simp
  have f1: "get_existing_student last_slot (sanitize example_env amina) = None" by code_simp
  have f2: "get_existing_student last_slot (sanitize example_env bello) = None" by code_simp
  have s: "get_active_section last_slot ''Tahfiz'' = Some (tahfiz\<lparr>sec_current_enrollment := 24\<rparr>)"
    unfolding tahfiz_def by code_simp
  have k: "sec_current_enrollment (tahfiz\<lparr>sec_current_enrollment := 24\<rparr>) + int 1 =
         sec_capacity (tahfiz\<lparr>sec_current_enrollment := 24\<rparr>)"
    by (simp add: tahfiz_def)
  have w: "\<forall>c. \<not> db_fails example_env c" by (simp add: example_env_def)
  have h1: "\<forall>raw\<in>set [amina, bello].
      registrationValidation example_env raw = [] \<and> section_name raw = ''Tahfiz''"
    using v1 v2 by simp
  have h2: "distinct (map (\<lambda>raw. triple (sanitize example_env raw)) [amina, bello])"
    using d by simp
  have h3: "\<forall>raw\<in>set [amina, bello].
      get_existing_student last_slot (sanitize example_env raw) = None"
    using f1 f2 by simp
  have old: "students last_slot = []" by code_simp
  note r = sequential_submissions_never_oversell[OF h1 h2 h3 s k w]
  from r have a: "map (\<lambda>r. (status_code r, message r))
         (fst (register_all example_env last_slot [amina, bello])) =
         [(201, ''Registration successful''), (400, ''Selected section is at full capacity'')]"
    by simp
  from r have b: "length (students (snd (register_all example_env last_slot [amina, bello]))) = 1"
    by (simp add: old)
  from r have "get_active_section
      (snd (register_all example_env last_slot (take 2 [amina, bello]))) ''Tahfiz'' =
      Some (tahfiz\<lparr>sec_current_enrollment := 24\<rparr>\<lparr>sec_current_enrollment :=
        sec_current_enrollment (tahfiz\<lparr>sec_current_enrollment := 24\<rparr>)
          + int (min 1 (min (length [amina, bello]) 2))\<rparr>)"
    by blast
  then have c: "get_active_section (snd (register_all example_env last_slot [amina, bello]))
      ''Tahfiz'' = Some (tahfiz\<lparr>sec_current_enrollment := 25\<rparr>)"
    by simp
  show ?thesis using v1 v2 d f1 f2 s k w a b c by blast
qed

subsection \<open>Validated section names and seeded section names\<close>

text \<open>
  Claim C5 does not hold of the code. The validation list has \<^verbatim>\<open>Primary\<close> where the
  seed has \<^verbatim>\<open>Primary School\<close>: the first passes validation and names no seeded
  section, the second is seeded and fails validation. On the store a first start leaves
  behind, where the six seeded sections are all active, a submission for \<^verbatim>\<open>Primary\<close>
  passes validation and is answered 400 "Selected section is not available".
\<close>

theorem validated_primary_is_not_seeded:
  "isIn valid_sections ''Primary''
   \<and> ''Primary'' \<notin> set (map name default_sections)
   \<and> ''Primary School'' \<in> set (map name default_sections)
   \<and> \<not> isIn valid_sections ''Primary School''
   \<and> insertDefaultSections example_env empty_database = (None, seeded)
   \<and> map sec_name (sections seeded) = map name default_sections
   \<and> list_all sec_is_active (sections seeded)
   \<and> registrationValidation example_env primary_request = []
   \<and> reply (register example_env seeded primary_request) =
         \<lparr>status_code = 400, success = False, message = ''Selected section is not available'',
          data = None, errors = None\<rparr>"
  by code_simp

section \<open>Properties of the listing\<close>

lemma sql_where_query: "sql_where (query_params q) rows = filter (selected q) rows"
  unfolding sql_where_def
  by (rule filter_cong)
     (auto simp add: query_params_def selected_def truthy_def split: option.splits)

lemma sql_where_countQuery: "sql_where (countQuery_params q) rows = filter (selected q) rows"
  unfolding sql_where_def
  by (rule filter_cong)
     (auto simp add: countQuery_params_def selected_def truthy_def split: option.splits)

lemma newest_first: "sorted_wrt (\<lambda>a b. s_created_at b \<le> s_created_at a) (order_by_created_at_desc rows)"
proof -
  have "sorted (map (\<lambda>r. - int (s_created_at r)) (order_by_created_at_desc rows))"
    unfolding order_by_created_at_desc_def by (rule sorted_sort_key)
  then show ?thesis by (simp add: sorted_map)
qed

lemma mset_order_by: "mset (order_by_created_at_desc rows) = mset rows"
  by (simp add: order_by_created_at_desc_def)

lemma length_order_by: "length (order_by_created_at_desc rows) = length rows"
  by (simp add: order_by_created_at_desc_def)

lemma ceil_div_pos:
  assumes "0 < b"
  shows "ceil_div a b = Some (- ((- a) div b))
       \<and> (- ((- a) div b) - 1) * b < a \<and> a \<le> - ((- a) div b) * b"
proof -
  let ?d = "(- a) div b" and ?m = "(- a) mod b"
  have eq: "?d * b + ?m = - a" by simp
  have m: "0 \<le> ?m" "?m < b" using assms by simp_all
  have "(- ?d - 1) * b = - (?d * b) - b" by (simp add: algebra_simps)
  also have "\<dots> = a + ?m - b" using eq by linarith
  also have "\<dots> < a" using m by linarith
  finally have lo: "(- ?d - 1) * b < a" .
  have "- (?d * b) = a + ?m" using eq by linarith
  then have hi: "a \<le> - ?d * b" using m by simp
  show ?thesis using assms lo hi by (simp add: ceil_div_def)
qed

lemma list_registrations_ok:
  assumes "\<not> db_fails e ListAll \<and> \<not> db_fails e ListCount"
    and "pg = (case q_page q of None \<Rightarrow> 1 | Some n \<Rightarrow> n)"
    and "lim = (case q_limit q of None \<Rightarrow> 20 | Some n \<Rightarrow> n)"
  shows "list_registrations e db q =
           \<lparr>l_status_code = 200, l_success = True, l_message = None,
            l_data = Some (sql_limit_offset lim ((pg - 1) * lim)
                      (order_by_created_at_desc (filter (selected q) (students db)))),
            l_pagination =
              Some \<lparr>page = pg, limit = lim,
                     total = int (length (filter (selected q) (students db))),
                     pages = ceil_div (int (length (filter (selected q) (students db)))) lim\<rparr>\<rparr>"
  using assms
  by (simp add: list_registrations_def Let_def sql_where_query sql_where_countQuery)

text \<open>
  Claim C8. With a working store, a page number and a limit of at least 1, the listing
  returns the rows that satisfy the filters, newest first, from offset
  \<open>(page - 1) * limit\<close>, at most \<open>limit\<close> of them; the count statement carries the
  same conditions as the page statement, \<open>total\<close> is the number of rows that satisfy
  the filters, and \<open>pages\<close> is the least \<open>p\<close> with \<open>total \<le> p * limit\<close>. On a
  store with exactly 25 pending rows, \<^verbatim>\<open>status=pending&page=2&limit=10\<close> returns 10
  rows and 3 pages.
\<close>

theorem listing_counts_under_the_page_filter:
  assumes works: "\<not> db_fails e ListAll \<and> \<not> db_fails e ListCount"
    and pg: "pg = (case q_page q of None \<Rightarrow> 1 | Some n \<Rightarrow> n)"
    and lim: "lim = (case q_limit q of None \<Rightarrow> 20 | Some n \<Rightarrow> n)"
    and pos: "1 \<le> pg \<and> 1 \<le> lim"
  shows "l_status_code (list_registrations e db q) = 200
       \<and> l_data (list_registrations e db q) =
           Some (take (nat lim) (drop (nat ((pg - 1) * lim))
                   (order_by_created_at_desc (filter (selected q) (students db)))))
       \<and> mset (order_by_created_at_desc (filter (selected q) (students db))) =
           mset (filter (selected q) (students db))
       \<and> sorted_wrt (\<lambda>a b. s_created_at b \<le> s_created_at a)
           (order_by_created_at_desc (filter (selected q) (students db)))
       \<and> sorted_wrt (\<lambda>a b. s_created_at b \<le> s_created_at a)
           (the (l_data (list_registrations e db q)))
       \<and> countQuery_params q = query_params q
       \<and> (\<exists>p. l_pagination (list_registrations e db q) =
                 Some \<lparr>page = pg, limit = lim,
                        total = int (length (filter (selected q) (students db))),
                        pages = Some p\<rparr>
              \<and> (p - 1) * lim < int (length (filter (selected q) (students db)))
              \<and> int (length (filter (selected q) (students db))) \<le> p * lim)
       \<and> (length (filter (\<lambda>r. s_status r = ''pending'') (students db)) = 25 \<longrightarrow>
            length (the (l_data (list_registrations e db
              \<lparr>q_status = Some ''pending'', q_section = None,
               q_page = Some 2, q_limit = Some 10\<rparr>))) = 10
          \<and> pages (the (l_pagination (list_registrations e db
              \<lparr>q_status = Some ''pending'', q_section = None,
               q_page = Some 2, q_limit = Some 10\<rparr>))) = Some 3)"
proof -
  let ?sel = "filter (selected q) (students db)"
  let ?tot = "int (length ?sel)"
  note out = list_registrations_ok[OF works pg lim, of db]
  have code: "l_status_code (list_registrations e db q) = 200"
    by (simp add: out)
  have rows: "l_data (list_registrations e db q) =
      Some (take (nat lim) (drop (nat ((pg - 1) * lim)) (order_by_created_at_desc ?sel)))"
    using pos by (simp add: out sql_limit_offset_def Let_def)
  have perm: "mset (order_by_created_at_desc ?sel) = mset ?sel"
    by (rule mset_order_by)
  have srt: "sorted_wrt (\<lambda>a b. s_created_at b \<le> s_created_at a) (order_by_created_at_desc ?sel)"
    by (rule newest_first)
  have srt': "sorted_wrt (\<lambda>a b. s_created_at b \<le> s_created_at a)
      (the (l_data (list_registrations e db q)))"
    by (simp add: rows sorted_wrt_take sorted_wrt_drop srt)
  have par: "countQuery_params q = query_params q"
    by (simp add: countQuery_params_def query_params_def)
  have "0 < lim" using pos by simp
  from ceil_div_pos[OF this, of ?tot]
  have pgs: "\<exists>p. l_pagination (list_registrations e db q) =
                 Some \<lparr>page = pg, limit = lim, total = ?tot, pages = Some p\<rparr>
              \<and> (p - 1) * lim < ?tot \<and> ?tot \<le> p * lim"
    by (simp add: out)
  have inst: "length (filter (\<lambda>r. s_status r = ''pending'') (students db)) = 25 \<longrightarrow>
            length (the (l_data (list_registrations e db
              \<lparr>q_status = Some ''pending'', q_section = None,
               q_page = Some 2, q_limit = Some 10\<rparr>))) = 10
          \<and> pages (the (l_pagination (list_registrations e db
              \<lparr>q_status = Some ''pending'', q_section = None,
               q_page = Some 2, q_limit = Some 10\<rparr>))) = Some 3"
  proof
    let ?q = "\<lparr>q_status = Some ''pending'', q_section = None,
               q_page = Some 2, q_limit = Some 10\<rparr>"
    assume n: "length (filter (\<lambda>r. s_status r = ''pending'') (students db)) = 25"
    have sel: "selected ?q = (\<lambda>r. s_status r = ''pending'')"
      by (rule ext) (simp add: selected_def)
    have out2: "list_registrations e db ?q =
           \<lparr>l_status_code = 200, l_success = True, l_message = None,
            l_data = Some (sql_limit_offset 10 ((2 - 1) * 10)
                      (order_by_created_at_desc (filter (selected ?q) (students db)))),
            l_pagination =
              Some \<lparr>page = 2, limit = 10,
                     total = int (length (filter (selected ?q) (students db))),
                     pages = ceil_div (int (length (filter (selected ?q) (students db)))) 10\<rparr>\<rparr>"
      by (rule list_registrations_ok[OF works]) simp_all
    show "length (the (l_data (list_registrations e db ?q))) = 10
          \<and> pages (the (l_pagination (list_registrations e db ?q))) = Some 3"
      unfolding out2 sel
      by (simp add: sql_limit_offset_def length_order_by n ceil_div_def)
  qed
  show ?thesis using code rows perm srt srt' par pgs inst by blast
qed

theorem listing_counts_under_the_page_filter_witness:
  "(\<not> db_fails example_env ListAll \<and> \<not> db_fails example_env ListCount)
   \<and> 2 = (case q_page pending_page2 of None \<Rightarrow> 1 | Some n \<Rightarrow> n)
   \<and> 10 = (case q_limit pending_page2 of None \<Rightarrow> 20 | Some n \<Rightarrow> n)
   \<and> ((1::int) \<le> 2 \<and> (1::int) \<le> 10)
   \<and> length (filter (\<lambda>r. s_status r = ''pending'') (students pending25)) = 25
   \<and> length (students pending25) = 27
   \<and> map s_id (the (l_data (list_registrations example_env pending25 pending_page2))) =
         [15, 14, 13, 12, 11, 10, 9, 8, 7, 6]
   \<and> length (the (l_data (list_registrations example_env pending25 pending_page2))) = 10
   \<and> pages (the (l_pagination (list_registrations example_env pending25 pending_page2))) =
         Some 3"
proof -
  have h1: "\<not> db_fails example_env ListAll \<and> \<not> db_fails example_env ListCount"
    by (simp add: example_env_def)
  have h2: "2 = (case q_page pending_page2 of None \<Rightarrow> 1 | Some n \<Rightarrow> n)"
    by (simp add: pending_page2_def)
  have h3: "10 = (case q_limit pending_page2 of None \<Rightarrow> 20 | Some n \<Rightarrow> n)"
    by (simp add: pending_page2_def)
  have h4: "(1::int) \<le> 2 \<and> (1::int) \<le> 10" by simp
  have h5: "length (filter (\<lambda>r. s_status r = ''pending'') (students pending25)) = 25"
    by code_simp
  have all: "length (students pending25) = 27" by code_simp
  have ev: "map s_id (take (nat 10) (drop (nat ((2 - 1) * 10))
      (order_by_created_at_desc (filter (selected pending_page2) (students pending25))))) =
      [15, 14, 13, 12, 11, 10, 9, 8, 7, 6]"
    by code_simp
  note r = listing_counts_under_the_page_filter[OF h1 h2 h3 h4, of pending25]
  from r have "l_data (list_registrations example_env pending25 pending_page2) =
      Some (take (nat 10) (drop (nat ((2 - 1) * 10))
        (order_by_created_at_desc (filter (selected pending_page2) (students pending25)))))"
    by blast
  then have a: "map s_id (the (l_data (list_registrations example_env pending25 pending_page2))) =
      [15, 14, 13, 12, 11, 10, 9, 8, 7, 6]"
    by (simp only: ev option.sel)
  from r h5 have "length (the (l_data (list_registrations example_env pending25
              \<lparr>q_status = Some ''pending'', q_section = None,
               q_page = Some 2, q_limit = Some 10\<rparr>))) = 10
          \<and> pages (the (l_pagination (list_registrations example_env pending25
              \<lparr>q_status = Some ''pending'', q_section = None,
               q_page = Some 2, q_limit = Some 10\<rparr>))) = Some 3"
    by blast
  then have b: "length (the (l_data (list_registrations example_env pending25 pending_page2))) = 10"
    and c: "pages (the (l_pagination (list_registrations example_env pending25 pending_page2))) =
         Some 3"
    by (simp_all only: pending_page2_def)
  show ?thesis using h1 h2 h3 h4 h5 all a b c by blast
qed

section \<open>Properties of the seeding\<close>

lemma fold_max_covered: "\<forall>i\<in>set ids. i \<le> m \<Longrightarrow> fold max ids (m::nat) = m"
  by (induction ids) (simp_all add: max_absorb2)

lemma insert_or_ignore_section_present:
  "name d \<in> set (map sec_name (sections db)) \<Longrightarrow>
   insert_or_ignore_section t d db =
     db\<lparr>sections_seq := next_rowid (sections_seq db) (map sec_id (sections db))\<rparr>"
  by (simp add: insert_or_ignore_section_def Let_def)

lemma insert_or_ignore_section_names:
  "set (map sec_name (sections (insert_or_ignore_section t d db))) =
     insert (name d) (set (map sec_name (sections db)))"
  by (auto simp add: insert_or_ignore_section_def Let_def)

lemma insert_or_ignore_section_rows:
  "\<exists>new. sections (insert_or_ignore_section t d db) = sections db @ new
         \<and> set (map sec_name new) \<inter> set (map sec_name (sections db)) = {}"
  by (auto simp add: insert_or_ignore_section_def Let_def)

text \<open>After one statement the sequence is at least every rowid of the table.\<close>

lemma insert_or_ignore_section_covers:
  "\<forall>i\<in>set (map sec_id (sections (insert_or_ignore_section t d db))).
     i \<le> sections_seq (insert_or_ignore_section t d db)"
proof -
  have "i \<le> next_rowid (sections_seq db) (map sec_id (sections db))"
    if "i \<in> set (map sec_id (sections db))" for i
    using next_rowid_fresh[OF that, of "sections_seq db"] by simp
  then show ?thesis
    by (auto simp add: insert_or_ignore_section_def Let_def)
qed

lemma seed_loop_rows:
  "\<exists>new. sections (snd (seed_loop e ds db)) = sections db @ new
         \<and> set (map sec_name new) \<inter> set (map sec_name (sections db)) = {}"
proof (induction ds arbitrary: db)
  case Nil
  show ?case by simp
next
  case (Cons d ds)
  show ?case
  proof (cases "db_fails e (SeedInsert (name d))")
    case True
    then show ?thesis by simp
  next
    case False
    let ?db1 = "insert_or_ignore_section (now e) d db"
    obtain n1 where n1: "sections ?db1 = sections db @ n1"
      "set (map sec_name n1) \<inter> set (map sec_name (sections db)) = {}"
      using insert_or_ignore_section_rows by blast
    obtain n2 where n2: "sections (snd (seed_loop e ds ?db1)) = sections ?db1 @ n2"
      "set (map sec_name n2) \<inter> set (map sec_name (sections ?db1)) = {}"
      using Cons.IH by blast
    have "sections (snd (seed_loop e (d # ds) db)) = sections db @ (n1 @ n2)"
      using False n1 n2 by simp
    moreover have "set (map sec_name (n1 @ n2)) \<inter> set (map sec_name (sections db)) = {}"
      using n1 n2 by auto
    ultimately show ?thesis by blast
  qed
qed

lemma seed_loop_covers:
  assumes "\<forall>n. \<not> db_fails e (SeedInsert n)"
    and "\<forall>i\<in>set (map sec_id (sections db)). i \<le> sections_seq db"
  shows "\<forall>i\<in>set (map sec_id (sections (snd (seed_loop e ds db)))).
           i \<le> sections_seq (snd (seed_loop e ds db))"
  using assms
proof (induction ds arbitrary: db)
  case Nil
  then show ?case by simp
next
  case (Cons d ds)
  have "\<forall>i\<in>set (map sec_id (sections (snd (seed_loop e ds
            (insert_or_ignore_section (now e) d db))))).
          i \<le> sections_seq (snd (seed_loop e ds (insert_or_ignore_section (now e) d db)))"
    by (rule Cons.IH[OF Cons.prems(1) insert_or_ignore_section_covers])
  then show ?case using Cons.prems(1) by simp
qed

text \<open>
  On a store that holds every name of the list, and whose sequence is at least every
  rowid, the loop writes no row and uses up one rowid for each statement.
\<close>

lemma seed_loop_all_present:
  assumes "\<forall>n. \<not> db_fails e (SeedInsert n)"
    and "set (map name ds) \<subseteq> set (map sec_name (sections db))"
    and "\<forall>i\<in>set (map sec_id (sections db)). i \<le> sections_seq db"
  shows "seed_loop e ds db = (None, db\<lparr>sections_seq := sections_seq db + length ds\<rparr>)"
  using assms
proof (induction ds arbitrary: db)
  case Nil
  then show ?case by simp
next
  case (Cons d ds)
  let ?db1 = "db\<lparr>sections_seq := Suc (sections_seq db)\<rparr>"
  have "next_rowid (sections_seq db) (map sec_id (sections db)) = Suc (sections_seq db)"
    using fold_max_covered[OF Cons.prems(3)] by (simp add: next_rowid_def)
  then have one: "insert_or_ignore_section (now e) d db = ?db1"
    using Cons.prems(2) by (simp add: insert_or_ignore_section_present)
  have names: "set (map name ds) \<subseteq> set (map sec_name (sections ?db1))"
    using Cons.prems(2) by simp
  have covers: "\<forall>i\<in>set (map sec_id (sections ?db1)). i \<le> sections_seq ?db1"
    using Cons.prems(3) by auto
  have "seed_loop e ds ?db1 = (None, ?db1\<lparr>sections_seq := sections_seq ?db1 + length ds\<rparr>)"
    by (rule Cons.IH[OF Cons.prems(1) names covers])
  then show ?case using Cons.prems(1) by (simp add: one)
qed

lemma seed_loop_names:
  assumes "\<forall>n. \<not> db_fails e (SeedInsert n)"
  shows "set (map sec_name (sections (snd (seed_loop e ds db)))) =
           set (map name ds) \<union> set (map sec_name (sections db))"
  using assms
proof (induction ds arbitrary: db)
  case Nil
  show ?case by simp
next
  case (Cons d ds)
  then show ?case
    using insert_or_ignore_section_names[of "now e" d db] by auto
qed

lemma insertDefaultSections_covers:
  assumes "\<forall>n. \<not> db_fails e (SeedInsert n)"
  shows "\<forall>i\<in>set (map sec_id (sections (snd (insertDefaultSections e db)))).
           i \<le> sections_seq (snd (insertDefaultSections e db))"
proof -
  obtain d ds where ds: "default_sections = d # ds"
    by (simp add: default_sections_def)
  have "snd (insertDefaultSections e db) =
          snd (seed_loop e ds (insert_or_ignore_section (now e) d db))"
    using assms by (simp add: insertDefaultSections_def ds)
  then show ?thesis
    using seed_loop_covers[OF assms insert_or_ignore_section_covers, of ds "now e" d db]
    by simp
qed

text \<open>
  Claim C9. With a working store, seeding a store that was already seeded writes no row
  and changes no row: the sections table after the second seeding is the sections table
  after the first, whatever the clock, and so is every other table. What the second
  seeding does change is the table's rowid sequence, which is six higher, one for each
  ignored statement. And seeding any store leaves the rows it held in place and
  unchanged, so the rows of a name the store already held are, after seeding, exactly
  the rows it held before.
\<close>

theorem seeding_twice_is_seeding_once:
  assumes first: "\<forall>n. \<not> db_fails e1 (SeedInsert n)"
    and again: "\<forall>n. \<not> db_fails e2 (SeedInsert n)"
  shows "sections (snd (insertDefaultSections e2 (snd (insertDefaultSections e1 db)))) =
           sections (snd (insertDefaultSections e1 db))
       \<and> insertDefaultSections e2 (snd (insertDefaultSections e1 db)) =
           (None, (snd (insertDefaultSections e1 db))
                    \<lparr>sections_seq := sections_seq (snd (insertDefaultSections e1 db)) + 6\<rparr>)
       \<and> take (length (sections db)) (sections (snd (insertDefaultSections e1 db))) =
           sections db
       \<and> (n \<in> set (map sec_name (sections db)) \<longrightarrow>
            filter (\<lambda>r. sec_name r = n) (sections (snd (insertDefaultSections e1 db))) =
            filter (\<lambda>r. sec_name r = n) (sections db))"
proof -
  let ?db1 = "snd (insertDefaultSections e1 db)"
  have names: "set (map name default_sections) \<subseteq> set (map sec_name (sections ?db1))"
    unfolding insertDefaultSections_def using seed_loop_names[OF first] by simp
  have six: "length default_sections = 6"
    by (simp add: default_sections_def)
  from seed_loop_all_present[OF again names insertDefaultSections_covers[OF first]]
  have twice: "insertDefaultSections e2 ?db1 =
      (None, ?db1\<lparr>sections_seq := sections_seq ?db1 + 6\<rparr>)"
    by (simp add: insertDefaultSections_def six)
  have rows: "sections (snd (insertDefaultSections e2 ?db1)) = sections ?db1"
    by (simp add: twice)
  obtain new where new: "sections ?db1 = sections db @ new"
    "set (map sec_name new) \<inter> set (map sec_name (sections db)) = {}"
    unfolding insertDefaultSections_def using seed_loop_rows by blast
  have kept: "take (length (sections db)) (sections ?db1) = sections db"
    by (simp add: new)
  have same: "n \<in> set (map sec_name (sections db)) \<longrightarrow>
      filter (\<lambda>r. sec_name r = n) (sections ?db1) = filter (\<lambda>r. sec_name r = n) (sections db)"
  proof
    assume "n \<in> set (map sec_name (sections db))"
    with new(2) have "n \<notin> set (map sec_name new)" by blast
    then have "filter (\<lambda>r. sec_name r = n) new = []"
      by (auto simp add: filter_empty_conv)
    then show "filter (\<lambda>r. sec_name r = n) (sections ?db1) =
               filter (\<lambda>r. sec_name r = n) (sections db)"
      by (simp add: new)
  qed
  show ?thesis using rows twice kept same by blast
qed

theorem seeding_twice_is_seeding_once_witness:
  "(\<forall>n. \<not> db_fails example_env (SeedInsert n))
   \<and> (\<forall>n. \<not> db_fails later (SeedInsert n))
   \<and> ''Tahfiz'' \<in> set (map sec_name (sections partly_seeded))
   \<and> sections (snd (insertDefaultSections later
         (snd (insertDefaultSections example_env partly_seeded)))) =
         sections (snd (insertDefaultSections example_env partly_seeded))
   \<and> filter (\<lambda>r. sec_name r = ''Tahfiz'')
         (sections (snd (insertDefaultSections example_env partly_seeded))) =
         [tahfiz\<lparr>sec_capacity := 60, sec_current_enrollment := 12\<rparr>]
   \<and> map sec_id (sections (snd (insertDefaultSections example_env partly_seeded))) =
         [4, 5, 6, 7, 9, 10]
   \<and> sections_seq (snd (insertDefaultSections example_env partly_seeded)) = 10
   \<and> sections_seq (snd (insertDefaultSections later
         (snd (insertDefaultSections example_env partly_seeded)))) = 16"
proof -
  have h1: "\<forall>n. \<not> db_fails example_env (SeedInsert n)" by (simp add: example_env_def)
  have h2: "\<forall>n. \<not> db_fails later (SeedInsert n)" by (simp add: later_def example_env_def)
  have h3: "''Tahfiz'' \<in> set (map sec_name (sections partly_seeded))"
    by (simp add: partly_seeded_def tahfiz_def empty_database_def)
  have old: "filter (\<lambda>r. sec_name r = ''Tahfiz'') (sections partly_seeded) =
      [tahfiz\<lparr>sec_capacity := 60, sec_current_enrollment := 12\<rparr>]"
    by (simp add: partly_seeded_def tahfiz_def empty_database_def)
  have ids: "map sec_id (sections (snd (insertDefaultSections example_env partly_seeded))) =
      [4, 5, 6, 7, 9, 10]"
    by code_simp
  have ten: "sections_seq (snd (insertDefaultSections example_env partly_seeded)) = 10"
    by code_simp
  note r = seeding_twice_is_seeding_once[OF h1 h2, of partly_seeded "''Tahfiz''"]
  from r have a: "sections (snd (insertDefaultSections later
      (snd (insertDefaultSections example_env partly_seeded)))) =
      sections (snd (insertDefaultSections example_env partly_seeded))"
    by blast
  from r have "insertDefaultSections later
      (snd (insertDefaultSections example_env partly_seeded)) =
      (None, (snd (insertDefaultSections example_env partly_seeded))
        \<lparr>sections_seq :=
           sections_seq (snd (insertDefaultSections example_env partly_seeded)) + 6\<rparr>)"
    by blast
  then have c: "sections_seq (snd (insertDefaultSections later
      (snd (insertDefaultSections example_env partly_seeded)))) = 16"
    by (simp add: ten)
  from r h3 have "filter (\<lambda>r. sec_name r = ''Tahfiz'')
      (sections (snd (insertDefaultSections example_env partly_seeded))) =
      filter (\<lambda>r. sec_name r = ''Tahfiz'') (sections partly_seeded)"
    by blast
  then have b: "filter (\<lambda>r. sec_name r = ''Tahfiz'')
      (sections (snd (insertDefaultSections example_env partly_seeded))) =
      [tahfiz\<lparr>sec_capacity := 60, sec_current_enrollment := 12\<rparr>]"
    by (simp only: old)
  show ?thesis using h1 h2 h3 a b ids ten c by blast
qed

section \<open>Properties of reading a contact message\<close>

lemma find_mark_read:
  "find (\<lambda>m. m_id m = i) rows = Some msg \<Longrightarrow>
   find (\<lambda>m. m_id m = i)
     (map (\<lambda>m. if m_id m = i then m\<lparr>m_status := ''read'', m_updated_at := t\<rparr> else m) rows) =
   Some (msg\<lparr>m_status := ''read'', m_updated_at := t\<rparr>)"
  by (induction rows) auto

text \<open>
  Claim C10. Fetching a message by id, with a working store: when the message is
  \<^verbatim>\<open>unread\<close>, the store afterwards has that row with status \<^verbatim>\<open>read\<close> and
  \<^verbatim>\<open>updated_at\<close> set to the current time and every other row as before, and the
  response carries the message with status \<^verbatim>\<open>read\<close>; when its status is anything
  else, the response carries the message as stored and the store is unchanged.
\<close>

theorem reading_marks_unread_as_read:
  assumes works: "\<not> db_fails e MsgGet \<and> \<not> db_fails e MsgMarkRead"
    and found: "find (\<lambda>m. m_id m = i) (contact_messages db) = Some msg"
  shows "(m_status msg = ''unread'' \<longrightarrow>
            fst (get_message e db i) =
              \<lparr>r_status_code = 200, r_success = True, r_message = None,
               r_data = Some (msg\<lparr>m_status := ''read''\<rparr>)\<rparr>
          \<and> snd (get_message e db i) =
              db\<lparr>contact_messages :=
                   map (\<lambda>m. if m_id m = i
                             then m\<lparr>m_status := ''read'', m_updated_at := now e\<rparr> else m)
                     (contact_messages db)\<rparr>
          \<and> find (\<lambda>m. m_id m = i) (contact_messages (snd (get_message e db i))) =
              Some (msg\<lparr>m_status := ''read'', m_updated_at := now e\<rparr>))
       \<and> (m_status msg \<noteq> ''unread'' \<longrightarrow>
            fst (get_message e db i) =
              \<lparr>r_status_code = 200, r_success = True, r_message = None, r_data = Some msg\<rparr>
          \<and> snd (get_message e db i) = db)"
proof (intro conjI impI)
  assume u: "m_status msg = ''unread''"
  have out: "get_message e db i =
      (\<lparr>r_status_code = 200, r_success = True, r_message = None,
        r_data = Some (msg\<lparr>m_status := ''read''\<rparr>)\<rparr>, mark_read (now e) i db)"
    using works found u by (simp add: get_message_def)
  show "fst (get_message e db i) =
          \<lparr>r_status_code = 200, r_success = True, r_message = None,
           r_data = Some (msg\<lparr>m_status := ''read''\<rparr>)\<rparr>"
    by (simp add: out)
  show "snd (get_message e db i) =
          db\<lparr>contact_messages :=
               map (\<lambda>m. if m_id m = i
                         then m\<lparr>m_status := ''read'', m_updated_at := now e\<rparr> else m)
                 (contact_messages db)\<rparr>"
    by (simp add: out mark_read_def)
  show "find (\<lambda>m. m_id m = i) (contact_messages (snd (get_message e db i))) =
          Some (msg\<lparr>m_status := ''read'', m_updated_at := now e\<rparr>)"
    by (simp add: out mark_read_def find_mark_read[OF found])
next
  assume r: "m_status msg \<noteq> ''unread''"
  have out: "get_message e db i =
      (\<lparr>r_status_code = 200, r_success = True, r_message = None, r_data = Some msg\<rparr>, db)"
    using works found r by (simp add: get_message_def)
  show "fst (get_message e db i) =
          \<lparr>r_status_code = 200, r_success = True, r_message = None, r_data = Some msg\<rparr>"
    by (simp add: out)
  show "snd (get_message e db i) = db"
    by (simp add: out)
qed

theorem reading_marks_unread_as_read_witness:
  "(\<not> db_fails later MsgGet \<and> \<not> db_fails later MsgMarkRead)
   \<and> find (\<lambda>m. m_id m = 1) (contact_messages inbox) = Some first_message
   \<and> find (\<lambda>m. m_id m = 2) (contact_messages inbox) = Some second_message
   \<and> m_status first_message = ''unread''
   \<and> m_status second_message \<noteq> ''unread''
   \<and> contact_messages (snd (get_message later inbox 1)) =
         [first_message\<lparr>m_status := ''read'', m_updated_at := 2000\<rparr>, second_message]
   \<and> r_data (fst (get_message later inbox 1)) = Some (first_message\<lparr>m_status := ''read''\<rparr>)
   \<and> snd (get_message later inbox 2) = inbox
   \<and> r_data (fst (get_message later inbox 2)) = Some second_message"
proof -
  have h1: "\<not> db_fails later MsgGet \<and> \<not> db_fails later MsgMarkRead"
    by (simp add: later_def example_env_def)
  have h2: "find (\<lambda>m. m_id m = 1) (contact_messages inbox) = Some first_message"
    by (simp add: inbox_def first_message_def)
  have h3: "find (\<lambda>m. m_id m = 2) (contact_messages inbox) = Some second_message"
    by (simp add: inbox_def first_message_def second_message_def)
  have h4: "m_status first_message = ''unread''" by (simp add: first_message_def)
  have h5: "m_status second_message \<noteq> ''unread''" by (simp add: second_message_def)
  have t: "now later = 2000" by (simp add: later_def)
  have ids: "m_id first_message = 1" "m_id second_message = 2"
    by (simp_all add: first_message_def second_message_def)
  have box: "contact_messages inbox = [first_message, second_message]"
    by (simp add: inbox_def)
  note r1 = reading_marks_unread_as_read[OF h1 h2]
  note r2 = reading_marks_unread_as_read[OF h1 h3]
  from r1 h4 have "snd (get_message later inbox 1) =
      inbox\<lparr>contact_messages :=
        map (\<lambda>m. if m_id m = 1 then m\<lparr>m_status := ''read'', m_updated_at := now later\<rparr> else m)
          (contact_messages inbox)\<rparr>"
    by blast
  then have a: "contact_messages (snd (get_message later inbox 1)) =
      [first_message\<lparr>m_status := ''read'', m_updated_at := 2000\<rparr>, second_message]"
    by (simp add: box ids t)
  from r1 h4 have b: "r_data (fst (get_message later inbox 1)) =
      Some (first_message\<lparr>m_status := ''read''\<rparr>)"
    by simp
  from r2 h5 have c: "snd (get_message later inbox 2) = inbox" by blast
  from r2 h5 have d: "r_data (fst (get_message later inbox 2)) = Some second_message" by simp
  show ?thesis using h1 h2 h3 h4 h5 a b c d by blast
qed

end
